theory Spec2Isabelle
  imports Main "HOL-Library.Sublist"
begin

section \<open>Python strings\<close>

text \<open>
  Python \<open>str\<close> values are modelled as \<open>string\<close> (lists of characters). The
  case and whitespace operations below are the ASCII part of Python's Unicode
  operations: characters outside ASCII are left alone by \<open>lower\<close>/\<open>upper\<close> and are
  never whitespace.
\<close>

definition upper_letters :: string where
  "upper_letters = ''ABCDEFGHIJKLMNOPQRSTUVWXYZ''"

definition lower_letters :: string where
  "lower_letters = ''abcdefghijklmnopqrstuvwxyz''"

definition lower_char :: "char \<Rightarrow> char" where
  "lower_char c = (case map_of (zip upper_letters lower_letters) c of Some d \<Rightarrow> d | None \<Rightarrow> c)"

definition upper_char :: "char \<Rightarrow> char" where
  "upper_char c = (case map_of (zip lower_letters upper_letters) c of Some d \<Rightarrow> d | None \<Rightarrow> c)"

text \<open>\<open>s.lower()\<close> and \<open>s.upper()\<close>.\<close>

definition lower :: "string \<Rightarrow> string" where
  "lower s = map lower_char s"

definition upper :: "string \<Rightarrow> string" where
  "upper s = map upper_char s"

text \<open>
  The characters \<open>str.strip()\<close> removes: tab, line feed, vertical tab, form feed,
  carriage return, the four separators \<open>0x1c\<close> to \<open>0x1f\<close>, and the space.
\<close>

definition is_space :: "char \<Rightarrow> bool" where
  "is_space c = (c \<in> set [CHR 0x09, CHR 0x0A, CHR 0x0B, CHR 0x0C, CHR 0x0D,
                            CHR 0x1C, CHR 0x1D, CHR 0x1E, CHR 0x1F, CHR 0x20])"

definition strip :: "string \<Rightarrow> string" where
  "strip s = rev (dropWhile is_space (rev (dropWhile is_space s)))"

text \<open>\<open>sub in s\<close> on strings: \<open>sub\<close> occurs in \<open>s\<close> as a contiguous block.\<close>

fun py_in :: "string \<Rightarrow> string \<Rightarrow> bool" where
  "py_in sub [] = (sub = [])"
| "py_in sub (c # cs) = (prefix sub (c # cs) \<or> py_in sub cs)"

text \<open>
  \<open>s.replace(old, new)\<close>: every non-overlapping occurrence of \<open>old\<close>, found from
  the left, is replaced; the scan goes on after the occurrence, so text that an
  earlier replacement brings together is not looked at again. For an empty
  \<open>old\<close> Python puts \<open>new\<close> before every character and at the end.
\<close>

function replace_from :: "string \<Rightarrow> string \<Rightarrow> string \<Rightarrow> string" where
  "replace_from old new [] = []"
| "replace_from old new (c # cs) =
     (if old \<noteq> [] \<and> prefix old (c # cs)
      then new @ replace_from old new (drop (length old) (c # cs))
      else c # replace_from old new cs)"
  by pat_completeness auto
termination
  by (relation "measure (\<lambda>(old, new, s). length s)") (auto simp: neq_Nil_conv)

definition replace :: "string \<Rightarrow> string \<Rightarrow> string \<Rightarrow> string" where
  "replace old new s =
     (if old = [] then new @ concat (map (\<lambda>c. c # new) s) else replace_from old new s)"

text \<open>
  \<open>s.split(sep)\<close> for a non-empty separator (Python raises \<open>ValueError\<close> on an
  empty one; every separator in this program is a non-empty literal). \<open>cur\<close>
  holds the piece being read.
\<close>

function split_from :: "string \<Rightarrow> string \<Rightarrow> string \<Rightarrow> string list" where
  "split_from sep cur [] = [cur]"
| "split_from sep cur (c # cs) =
     (if sep \<noteq> [] \<and> prefix sep (c # cs)
      then cur # split_from sep [] (drop (length sep) (c # cs))
      else split_from sep (cur @ [c]) cs)"
  by pat_completeness auto
termination
  by (relation "measure (\<lambda>(sep, cur, s). length s)") (auto simp: neq_Nil_conv)

definition split :: "string \<Rightarrow> string \<Rightarrow> string list" where
  "split sep s = split_from sep [] s"

text \<open>\<open>s.split(sep)[0]\<close>: the list \<open>split\<close> returns is never empty.\<close>

definition split_first :: "string \<Rightarrow> string \<Rightarrow> string" where
  "split_first sep s = (case split sep s of [] \<Rightarrow> [] | p # _ \<Rightarrow> p)"

text \<open>\<open>s.split(sep)[-1]\<close>.\<close>

definition split_last :: "string \<Rightarrow> string \<Rightarrow> string" where
  "split_last sep s = (case rev (split sep s) of [] \<Rightarrow> [] | p # _ \<Rightarrow> p)"

text \<open>\<open>sep.join(parts)\<close>.\<close>

fun join :: "string \<Rightarrow> string list \<Rightarrow> string" where
  "join sep [] = []"
| "join sep [p] = p"
| "join sep (p # q # ps) = p @ sep @ join sep (q # ps)"

text \<open>Truth value of an \<open>Optional[str]\<close>: \<open>None\<close> and the empty string are false.\<close>

fun truthy :: "string option \<Rightarrow> bool" where
  "truthy None = False"
| "truthy (Some s) = (s \<noteq> [])"

section \<open>The deduplication cache: \<open>cache/deduplication.py\<close>\<close>

text \<open>
  \<open>DeduplicationCache.normalize_url\<close>. The \<open>try\<close> around the three splits has
  nothing to catch: the separators are non-empty.
\<close>

definition normalize_url :: "string \<Rightarrow> string" where
  "normalize_url url0 =
     (let url = strip (lower url0);
          url = replace ''http://'' [] (replace ''https://'' [] url);
          url = replace ''www.'' [] url;
          domain = split_first ''/'' url;
          domain = split_first ''?'' domain;
          domain = split_first ''#'' domain
      in strip domain)"

section \<open>The data model: \<open>models.py\<close>\<close>

datatype Platform = SHOPIFY | CUSTOM | UNKNOWN

datatype Segment = EPHARMACY | SUNGLASSES | EYEWEAR

datatype LeadStatus = NEW | CONTACTED | RESPONDED | QUALIFIED | DISQUALIFIED

record Company =
  name :: string
  website :: string
  shopify_url :: "string option"
  primary_domain :: "string option"
  platform :: Platform
  industry :: "string option"
  segment :: "Segment option"
  country :: "string option"
  employee_count :: "int option"
  linkedin_url :: "string option"
  description :: "string option"
  founded_year :: "int option"

text \<open>
  \<open>DecisionMaker\<close>; its \<open>name\<close> and \<open>linkedin_url\<close> fields carry the prefix
  \<open>dm_\<close> here, the plain names being fields of \<open>Company\<close>.
\<close>

record DecisionMaker =
  dm_name :: string
  title :: "string option"
  dm_linkedin_url :: "string option"
  email :: "string option"
  email_verified :: bool
  phone :: "string option"
  location :: "string option"

text \<open>
  A value of the \<open>scoring_breakdown\<close> dictionary: the points of a criterion, or
  the flag stored under \<open>"excluded"\<close>.
\<close>

datatype breakdown_value = Points int | Flag bool

text \<open>
  \<open>Qualification\<close>. Its field \<open>qualified\<close> is written \<open>is_qualified\<close> (the
  plain word is reserved in Isabelle). The breakdown dictionary is kept as the
  list of its items in insertion order.
\<close>

record Qualification =
  score :: int
  is_qualified :: bool
  fit_notes :: "string option"
  scoring_breakdown :: "(string \<times> breakdown_value) list"

record OutreachCopy =
  linkedin_connection_request :: "string option"
  linkedin_followup :: "string option"
  email_subject :: "string option"
  email_body :: "string option"
  research_summary :: "string option"

text \<open>\<open>Lead\<close>; its field \<open>notes\<close> is written \<open>lead_notes\<close>.\<close>

record Lead =
  lead_id :: string
  company :: Company
  decision_maker :: "DecisionMaker option"
  qualification :: Qualification
  outreach :: "OutreachCopy option"
  status :: LeadStatus
  source :: "string option"
  created_at :: string
  updated_at :: string
  lead_notes :: "string option"

section \<open>Constants: \<open>constants.py\<close>\<close>

definition TARGET_COUNTRIES :: "string list" where
  "TARGET_COUNTRIES =
     [''US'', ''USA'', ''UK'', ''GB'', ''IE'', ''DE'', ''AT'', ''CH'', ''FR'', ''NL'',
      ''BE'', ''ES'', ''IT'', ''PT'', ''FI'', ''SE'', ''DK'', ''NO'', ''CA'', ''AU'']"

definition COMPANY_SIZE_MIN :: int where "COMPANY_SIZE_MIN = 10"
definition COMPANY_SIZE_SWEET_SPOT_MIN :: int where "COMPANY_SIZE_SWEET_SPOT_MIN = 20"
definition COMPANY_SIZE_SWEET_SPOT_MAX :: int where "COMPANY_SIZE_SWEET_SPOT_MAX = 50"
definition COMPANY_SIZE_MAX :: int where "COMPANY_SIZE_MAX = 200"

definition EXCLUSION_LIST :: "string list" where
  "EXCLUSION_LIST =
     [''glassesusa'', ''eyebuydirect'', ''zenni optical'', ''zenni'', ''sunglass hut'',
      ''lenscrafters'', ''warby parker'', ''specsavers'', ''fielmann'', ''apollo optik'']"

definition SCORING_WEIGHTS :: "(string \<times> int) list" where
  "SCORING_WEIGHTS =
     [(''platform_shopify'', 20),
      (''company_size_sweet_spot'', 15),
      (''company_size_good'', 10),
      (''target_geography'', 15),
      (''ecommerce_presence'', 10),
      (''no_rx_eyewear'', 15),
      (''decision_maker_found'', 10),
      (''email_verified'', 5)]"

definition QUALIFICATION_THRESHOLD :: int where "QUALIFICATION_THRESHOLD = 50"

text \<open>
  \<open>SCORING_WEIGHTS[key]\<close>. The scorer reads the table only at the eight literal
  keys the table has, so the \<open>KeyError\<close> of a missing key cannot happen; the
  model gives such a key no points.
\<close>

definition weight :: "string \<Rightarrow> int" where
  "weight key = (case map_of SCORING_WEIGHTS key of Some w \<Rightarrow> w | None \<Rightarrow> 0)"

section \<open>The scorer: \<open>scoring/lead_scorer.py\<close>\<close>

record LeadScorer =
  threshold :: int
  exclusion_list :: "string list"

text \<open>
  \<open>LeadScorer.__init__\<close>: an absent or empty \<open>exclusion_list\<close> argument selects
  \<open>EXCLUSION_LIST\<close>; the entries are kept lower-cased.
\<close>

definition LeadScorer_init :: "int \<Rightarrow> string list option \<Rightarrow> LeadScorer" where
  "LeadScorer_init qualification_threshold exclusion_arg =
     \<lparr>threshold = qualification_threshold,
      exclusion_list =
        map lower (case exclusion_arg of
                     None \<Rightarrow> EXCLUSION_LIST
                   | Some l \<Rightarrow> if l = [] then EXCLUSION_LIST else l)\<rparr>"

text \<open>\<open>LeadScorer._is_excluded\<close>.\<close>

definition is_excluded :: "LeadScorer \<Rightarrow> string \<Rightarrow> bool" where
  "is_excluded self company_name =
     list_ex (\<lambda>excluded. py_in excluded (lower company_name)) (exclusion_list self)"

text \<open>\<open>LeadScorer._sells_prescription_eyewear\<close>.\<close>

definition rx_terms :: "string list" where
  "rx_terms = [''prescription'', ''rx lenses'', ''optical lenses'', ''vision care'']"

definition sells_prescription_eyewear :: "Company \<Rightarrow> bool" where
  "sells_prescription_eyewear c =
     (case description c of
        None \<Rightarrow> False
      | Some d \<Rightarrow> d \<noteq> [] \<and> list_ex (\<lambda>term. py_in term (lower d)) rx_terms)"

text \<open>\<open>key in breakdown\<close>.\<close>

definition has_key :: "string \<Rightarrow> (string \<times> breakdown_value) list \<Rightarrow> bool" where
  "has_key key breakdown = (key \<in> set (map fst breakdown))"

text \<open>\<open>LeadScorer._generate_fit_notes\<close>.\<close>

definition generate_fit_notes :: "(string \<times> breakdown_value) list \<Rightarrow> int \<Rightarrow> bool \<Rightarrow> string" where
  "generate_fit_notes breakdown total_score qualified_now =
     (let strengths =
            (if has_key ''platform_shopify'' breakdown then [''Shopify platform''] else []) @
            (if has_key ''company_size_sweet_spot'' breakdown then [''ideal company size''] else []) @
            (if has_key ''target_geography'' breakdown then [''target geography''] else []) @
            (if has_key ''decision_maker_found'' breakdown then [''decision maker identified''] else []);
          notes1 = (if strengths \<noteq> [] then [''Strengths: '' @ join '', '' strengths] else []);
          gaps =
            (if \<not> has_key ''platform_shopify'' breakdown then [''not on Shopify''] else []) @
            (if \<not> has_key ''decision_maker_found'' breakdown then [''no decision maker found''] else []) @
            (if \<not> has_key ''email_verified'' breakdown then [''email not verified''] else []);
          notes2 = (if gaps \<noteq> [] \<and> \<not> qualified_now then [''Gaps: '' @ join '', '' gaps] else []);
          notes = notes1 @ notes2
      in if notes \<noteq> [] then join ''. '' notes else ''Scoring complete'')"

text \<open>\<open>breakdown[key] = value\<close>: a new key goes to the end, a present key keeps its place.\<close>

fun dict_set :: "string \<Rightarrow> breakdown_value \<Rightarrow> (string \<times> breakdown_value) list
                 \<Rightarrow> (string \<times> breakdown_value) list" where
  "dict_set key v [] = [(key, v)]"
| "dict_set key v ((k, w) # rest) =
     (if k = key then (key, v) # rest else (k, w) # dict_set key v rest)"

text \<open>
  The two statements every satisfied criterion runs, on the pair of the local
  variables \<open>breakdown\<close> and \<open>total_score\<close>:
  \<^verbatim>\<open>breakdown[key] = SCORING_WEIGHTS[key]; total_score += SCORING_WEIGHTS[key]\<close>
\<close>

definition award :: "string \<Rightarrow> (string \<times> breakdown_value) list \<times> int
                      \<Rightarrow> (string \<times> breakdown_value) list \<times> int" where
  "award key t = (dict_set key (Points (weight key)) (fst t), snd t + weight key)"

text \<open>The conditions of criteria 3, 6 and 7 of \<open>LeadScorer.score\<close>.\<close>

definition in_target_geography :: "Company \<Rightarrow> bool" where
  "in_target_geography c =
     (case country c of
        None \<Rightarrow> False
      | Some k \<Rightarrow> k \<noteq> [] \<and> upper k \<in> set TARGET_COUNTRIES)"

definition dm_found :: "DecisionMaker option \<Rightarrow> bool" where
  "dm_found dm = (case dm of None \<Rightarrow> False | Some d \<Rightarrow> dm_name d \<noteq> [])"

definition dm_verified :: "DecisionMaker option \<Rightarrow> bool" where
  "dm_verified dm = (case dm of None \<Rightarrow> False | Some d \<Rightarrow> email_verified d)"

text \<open>
  The body of \<open>LeadScorer.score\<close> after the exclusion test: the seven criteria in
  the order the method runs them, from an empty breakdown and a total of 0.
\<close>

definition run_criteria :: "Lead \<Rightarrow> (string \<times> breakdown_value) list \<times> int" where
  "run_criteria lead =
     (let c = company lead; dm = decision_maker lead;
          t = ([], 0);
          t = (if platform c = SHOPIFY then award ''platform_shopify'' t else t);
          t = (case employee_count c of
                 None \<Rightarrow> t
               | Some n \<Rightarrow>
                   if n = 0 then t
                   else if COMPANY_SIZE_SWEET_SPOT_MIN \<le> n \<and> n \<le> COMPANY_SIZE_SWEET_SPOT_MAX
                   then award ''company_size_sweet_spot'' t
                   else if COMPANY_SIZE_MIN \<le> n \<and> n \<le> COMPANY_SIZE_MAX
                   then award ''company_size_good'' t
                   else t);
          t = (if in_target_geography c then award ''target_geography'' t else t);
          t = (if truthy (shopify_url c) \<or> platform c = SHOPIFY
               then award ''ecommerce_presence'' t else t);
          t = (if \<not> sells_prescription_eyewear c then award ''no_rx_eyewear'' t else t);
          t = (if dm_found dm then award ''decision_maker_found'' t else t);
          t = (if dm_verified dm then award ''email_verified'' t else t)
      in t)"


text \<open>The qualification an excluded company gets.\<close>

definition excluded_qualification :: Qualification where
  "excluded_qualification =
     \<lparr>score = 0, is_qualified = False,
      fit_notes = Some ''Excluded: Company is in exclusion list'',
      scoring_breakdown = [(''excluded'', Flag True)]\<rparr>"

text \<open>\<open>LeadScorer.score\<close>.\<close>

definition LeadScorer_score :: "LeadScorer \<Rightarrow> Lead \<Rightarrow> Lead" where
  "LeadScorer_score self lead =
     (if is_excluded self (name (company lead))
      then lead\<lparr>qualification := excluded_qualification\<rparr>
      else
        let (breakdown, total_score) = run_criteria lead;
            qualified_now = (total_score \<ge> threshold self);
            notes = generate_fit_notes breakdown total_score qualified_now
        in lead\<lparr>qualification :=
                  \<lparr>score = total_score, is_qualified = qualified_now,
                   fit_notes = Some notes,
                   scoring_breakdown = breakdown\<rparr>\<rparr>)"

subsection \<open>The criteria as a table\<close>

text \<open>
  The specification describes the scorer as a fixed table of criteria, each
  giving its weight when satisfied. The table below lists, in the order of
  \<open>SCORING_WEIGHTS\<close>, the key of each criterion and the condition under which
  \<open>LeadScorer.score\<close> awards it; the wider company-size criterion is the
  \<open>elif\<close> branch, so it holds only when the sweet spot does not.
\<close>

definition in_sweet_spot :: "Lead \<Rightarrow> bool" where
  "in_sweet_spot lead =
     (case employee_count (company lead) of
        None \<Rightarrow> False
      | Some n \<Rightarrow> n \<noteq> 0 \<and> COMPANY_SIZE_SWEET_SPOT_MIN \<le> n \<and> n \<le> COMPANY_SIZE_SWEET_SPOT_MAX)"

definition in_good_size :: "Lead \<Rightarrow> bool" where
  "in_good_size lead =
     (case employee_count (company lead) of
        None \<Rightarrow> False
      | Some n \<Rightarrow> n \<noteq> 0 \<and> \<not> (COMPANY_SIZE_SWEET_SPOT_MIN \<le> n \<and> n \<le> COMPANY_SIZE_SWEET_SPOT_MAX)
                  \<and> COMPANY_SIZE_MIN \<le> n \<and> n \<le> COMPANY_SIZE_MAX)"

definition criteria :: "(string \<times> (Lead \<Rightarrow> bool)) list" where
  "criteria =
     [(''platform_shopify'', \<lambda>lead. platform (company lead) = SHOPIFY),
      (''company_size_sweet_spot'', in_sweet_spot),
      (''company_size_good'', in_good_size),
      (''target_geography'', \<lambda>lead. in_target_geography (company lead)),
      (''ecommerce_presence'',
         \<lambda>lead. truthy (shopify_url (company lead)) \<or> platform (company lead) = SHOPIFY),
      (''no_rx_eyewear'', \<lambda>lead. \<not> sells_prescription_eyewear (company lead)),
      (''decision_maker_found'', \<lambda>lead. dm_found (decision_maker lead)),
      (''email_verified'', \<lambda>lead. dm_verified (decision_maker lead))]"

text \<open>The keys of the criteria of a table that a lead satisfies.\<close>

definition satisfied :: "Lead \<Rightarrow> (string \<times> (Lead \<Rightarrow> bool)) list \<Rightarrow> string list" where
  "satisfied lead table = map fst (filter (\<lambda>(key, holds). holds lead) table)"

text \<open>The breakdown and the total that awarding exactly these keys gives.\<close>

definition awarded :: "Lead \<Rightarrow> (string \<times> (Lead \<Rightarrow> bool)) list
                        \<Rightarrow> (string \<times> breakdown_value) list \<times> int" where
  "awarded lead table =
     (map (\<lambda>key. (key, Points (weight key))) (satisfied lead table),
      sum_list (map weight (satisfied lead table)))"

subsection \<open>Example leads\<close>

definition example_company :: Company where
  "example_company =
     \<lparr>name = ''Iron Paris'', website = ''iron.paris'',
      shopify_url = Some ''https://iron.paris'', primary_domain = Some ''iron.paris'',
      platform = SHOPIFY, industry = None, segment = Some SUNGLASSES,
      country = Some ''fr'', employee_count = Some 30, linkedin_url = None,
      description = Some ''Handmade sunglasses'', founded_year = None\<rparr>"

definition example_dm :: DecisionMaker where
  "example_dm =
     \<lparr>dm_name = ''Ada Martin'', title = Some ''Founder'', dm_linkedin_url = None,
      email = Some ''ada@iron.paris'', email_verified = True, phone = None,
      location = None\<rparr>"

definition default_qualification :: Qualification where
  "default_qualification =
     \<lparr>score = 0, is_qualified = False, fit_notes = None, scoring_breakdown = []\<rparr>"

text \<open>
  The fully enriched lead of the specification's scenario: target platform,
  30 employees, a target country, a decision maker with a verified email.
\<close>

definition example_lead :: Lead where
  "example_lead =
     \<lparr>lead_id = ''0a1b2c3d'', company = example_company,
      decision_maker = Some example_dm, qualification = default_qualification,
      outreach = None, status = NEW, source = Some ''manual'',
      created_at = ''2025-01-01T00:00:00'', updated_at = ''2025-01-01T00:00:00'',
      lead_notes = None\<rparr>"

text \<open>The same lead under a company name of the exclusion list.\<close>

definition excluded_lead :: Lead where
  "excluded_lead = example_lead\<lparr>company := example_company\<lparr>name := ''Zenni Optical Outlet''\<rparr>\<rparr>"

text \<open>
  A lead that scores 50: a Shopify store (20 + 10) in a target country (15)
  whose description mentions prescription lenses, with a nameless contact whose
  email is verified (5).
\<close>

definition boundary_lead :: Lead where
  "boundary_lead =
     example_lead\<lparr>company := example_company\<lparr>employee_count := None,
                                      description := Some ''Prescription sunglasses''\<rparr>,
                  decision_maker := Some (example_dm\<lparr>dm_name := []\<rparr>)\<rparr>"

section \<open>The outside world\<close>

text \<open>
  The program reaches web pages and third-party services through library
  calls. Each such call is a field of the record \<open>World\<close> below: a function
  from the arguments of the call to what comes back, an exception being a value
  (\<open>Inl\<close> with its message, or \<open>None\<close> where the message is not used). The
  program's own code around these calls is modelled in full.
\<close>

text \<open>
  What the verifier reads from an \<open>httpx\<close> response: the status code, the body
  text, and the outcome of \<^verbatim>\<open>"products" in response.json()\<close>, which is \<open>None\<close> when
  the body is not JSON or the test raises.
\<close>

record Response =
  status_code :: int
  body_text :: string
  json_has_products :: "bool option"

text \<open>Values read from JSON objects with \<open>dict.get\<close>: the key may be missing, or hold \<open>null\<close>.\<close>

datatype json_str = Absent | Null | Str string

text \<open>An employee count as the company scraper may deliver it.\<close>

datatype json_num = NumInt int | NumStr string | NumOther

text \<open>The \<open>mainAddress\<close> entry of the scraped company: a dictionary with an optional \<open>addressCountry\<close>, or a value of another type.\<close>

datatype main_address = AddressDict "string option" | NotADict

text \<open>The fields \<open>LinkedInFinder.enrich_company\<close> reads from the dictionary \<open>find_company\<close> returns.\<close>

record LinkedInData =
  li_linkedInUrl :: "string option"
  li_numberOfEmployees :: "json_num option"
  li_employeeCount :: "json_num option"
  li_employee_count :: "json_num option"
  li_Industry :: "string option"
  li_industry :: "string option"
  li_description :: "string option"
  li_Founded :: "string option"
  li_foundedYear :: "string option"
  li_mainAddress :: "main_address option"
  li_Headquarters :: "string option"
  li_website :: "string option"
  li_companyUrl :: "string option"

text \<open>An item of the employee scraper's dataset.\<close>

record Employee =
  emp_name :: json_str
  emp_title :: "string option"
  emp_linkedInUrl :: "string option"
  emp_location :: "string option"

text \<open>An entry of the \<open>emails\<close> list of a Hunter.io domain search, and the data of that search.\<close>

record HunterEmail =
  first_name :: json_str
  last_name :: json_str
  email_value :: "string option"
  position :: "string option"
  confidence :: "int option"

record HunterData =
  organization :: "string option"
  hd_country :: "string option"
  hd_industry :: "string option"
  hd_emails :: "HunterEmail list"

text \<open>The dictionary \<open>EmailFinder.find_email\<close> returns, and the one of \<open>ProductValidator.validate_eyewear_store\<close>.\<close>

record EmailData =
  found_email :: string
  found_score :: "int option"

record Validation =
  is_eyewear_store :: bool
  rejection_reason :: "string option"

text \<open>
  What \<open>ShopifyVerifier.extract_store_info\<close> takes from the store's pages with
  its regular expressions, before it detects the country.
\<close>

record StorePage =
  page_name :: "string option"
  page_email :: "string option"
  page_phone :: "string option"
  page_address :: "string option"
  page_description :: "string option"
  page_social_links :: "(string \<times> string) list"
  page_real_domain :: "string option"

record World =
  http_get :: "string \<Rightarrow> string + Response"
  scrape_store_page :: "string \<Rightarrow> StorePage option"
  schema_country :: "string \<Rightarrow> string option"
  currency_country :: "string \<Rightarrow> string option"
  validate_eyewear_store :: "string \<Rightarrow> Validation"
  hunter_domain_search :: "string \<Rightarrow> nat \<Rightarrow> HunterData option"
  hunter_email_finder :: "string \<Rightarrow> string \<Rightarrow> string \<Rightarrow> EmailData option"
  hunter_email_verifier :: "string \<Rightarrow> string option option"
  find_company :: "string \<Rightarrow> string \<Rightarrow> string option \<Rightarrow> LinkedInData option"
  find_employees :: "string \<Rightarrow> nat \<Rightarrow> Employee list"
  find_from_schema :: "string \<Rightarrow> DecisionMaker option"
  scrape_team_page :: "string \<Rightarrow> DecisionMaker list"
  generate_outreach :: "Lead \<Rightarrow> OutreachCopy option"
  uuid4 :: string
  utcnow :: string
  cache_file_writable :: bool

text \<open>
  \<^item> \<open>http_get\<close>: \<open>client.get(url)\<close> of the verifier; \<open>Inl\<close> is the message of
    the exception it raises.
  \<^item> \<open>scrape_store_page\<close>: the main page and contact page as
    \<open>extract_store_info\<close> reads them; \<open>None\<close> when the main page cannot be
    fetched or does not answer 200.
  \<^item> \<open>schema_country\<close>, \<open>currency_country\<close>: \<open>detect_country_from_schema\<close> and
    \<open>detect_country_from_currency\<close>, which fetch the page, search it and catch
    every exception.
  \<^item> \<open>validate_eyewear_store\<close>: the product validator, which catches every
    exception.
  \<^item> \<open>hunter_domain_search\<close>, \<open>hunter_email_finder\<close>, \<open>hunter_email_verifier\<close>:
    the three Hunter.io endpoints; \<open>None\<close> when the request raises or, for the
    finder, has no email. The verifier gives the \<open>status\<close> field of the answer.
  \<^item> \<open>find_company\<close> and \<open>find_employees\<close>: the methods of \<open>LinkedInFinder\<close>
    that run the scrapers; both catch every exception.
  \<^item> \<open>find_from_schema\<close>, \<open>scrape_team_page\<close>: \<open>_find_from_schema\<close> and
    \<open>_scrape_team_page\<close> of \<open>AlternativeSourceFinder\<close>, which catch every
    exception.
  \<^item> \<open>generate_outreach\<close>: the copy the copywriter produces for a lead;
    \<open>None\<close> when it raises.
  \<^item> \<open>uuid4\<close> and \<open>utcnow\<close>: the first eight characters of the fresh identifier,
    and the time stamp.
  \<^item> \<open>cache_file_writable\<close>: whether opening the cache file for writing
    succeeds.
\<close>

section \<open>URLs\<close>

text \<open>
  \<open>urlparse(url).netloc\<close> for a URL that begins with \<open>http://\<close> or \<open>https://\<close>,
  which is what every caller here passes: the text between the two slashes and
  the next \<open>/\<close>, \<open>?\<close> or \<open>#\<close>. \<open>urlparse\<close> raises \<open>ValueError\<close> (here \<open>None\<close>)
  when only one of the two square brackets occurs in it.
\<close>

definition after_scheme :: "string \<Rightarrow> string" where
  "after_scheme url =
     (if prefix ''https://'' url then drop 8 url
      else if prefix ''http://'' url then drop 7 url else [])"

definition urlparse_netloc :: "string \<Rightarrow> string option" where
  "urlparse_netloc url =
     (let loc = takeWhile (\<lambda>c. c \<notin> set ''/?#'') (after_scheme url) in
        if (CHR ''['' \<in> set loc) \<noteq> (CHR '']'' \<in> set loc) then None else Some loc)"

text \<open>
  \<open>urljoin(url, path)\<close> for such a URL and a \<open>path\<close> that begins with a slash:
  scheme and network location of \<open>url\<close>, then \<open>path\<close>.
\<close>

definition urljoin :: "string \<Rightarrow> string \<Rightarrow> string" where
  "urljoin url path =
     (if prefix ''https://'' url then ''https://'' else ''http://'')
     @ takeWhile (\<lambda>c. c \<notin> set ''/?#'') (after_scheme url) @ path"

text \<open>The guard at the head of the methods that fetch: a URL without scheme gets \<open>https://\<close>.\<close>

definition with_scheme :: "string \<Rightarrow> string" where
  "with_scheme url =
     (if prefix ''http://'' url \<or> prefix ''https://'' url then url else ''https://'' @ url)"

section \<open>The verifier: \<open>collectors/shopify_verifier.py\<close>\<close>

definition CURRENCY_COUNTRY_MAP :: "(string \<times> string) list" where
  "CURRENCY_COUNTRY_MAP =
     [(''USD'', ''US''), (''EUR'', ''DE''), (''GBP'', ''GB''), (''CAD'', ''CA''),
      (''AUD'', ''AU''), (''CHF'', ''CH''), (''SEK'', ''SE''), (''NOK'', ''NO''),
      (''DKK'', ''DK''), (''PLN'', ''PL''), (''CZK'', ''CZ''), (''HUF'', ''HU''),
      (''RON'', ''RO''), (''BGN'', ''BG''), (''HRK'', ''HR''), (''ISK'', ''IS''),
      (''JPY'', ''JP''), (''NZD'', ''NZ''), (''SGD'', ''SG''), (''HKD'', ''HK''),
      (''MXN'', ''MX''), (''BRL'', ''BR''), (''INR'', ''IN''), (''ZAR'', ''ZA'')]"

definition TLD_COUNTRY_MAP :: "(string \<times> string option) list" where
  "TLD_COUNTRY_MAP =
     [(''.com'', None), (''.co.uk'', Some ''GB''), (''.uk'', Some ''GB''),
      (''.de'', Some ''DE''), (''.fr'', Some ''FR''), (''.es'', Some ''ES''),
      (''.it'', Some ''IT''), (''.nl'', Some ''NL''), (''.be'', Some ''BE''),
      (''.at'', Some ''AT''), (''.ch'', Some ''CH''), (''.se'', Some ''SE''),
      (''.no'', Some ''NO''), (''.dk'', Some ''DK''), (''.fi'', Some ''FI''),
      (''.pt'', Some ''PT''), (''.ie'', Some ''IE''), (''.pl'', Some ''PL''),
      (''.cz'', Some ''CZ''), (''.hu'', Some ''HU''), (''.ca'', Some ''CA''),
      (''.au'', Some ''AU''), (''.nz'', Some ''NZ''), (''.jp'', Some ''JP''),
      (''.sg'', Some ''SG''), (''.hk'', Some ''HK''), (''.in'', Some ''IN''),
      (''.br'', Some ''BR''), (''.mx'', Some ''MX''), (''.za'', Some ''ZA'')]"

definition SHOPIFY_INDICATORS :: "string list" where
  "SHOPIFY_INDICATORS =
     [''cdn.shopify.com'', ''shopify.com/s/'', ''Shopify.theme'', ''shopify-section'',
      ''name=\"shopify-'', ''window.Shopify'']"

text \<open>The dictionary \<open>ShopifyVerifier.verify\<close> returns; \<open>platform\<close> is written \<open>v_platform\<close>.\<close>

record Verification =
  is_shopify :: bool
  v_platform :: Platform
  store_url :: string
  detection_method :: "string option"
  error :: "string option"

text \<open>
  \<open>_check_products_json\<close>. The first definition is the body of its \<open>try\<close>, with an
  exception as \<open>Inl\<close>; the method itself turns every exception into \<open>False\<close>.
\<close>

definition check_products_json_try :: "World \<Rightarrow> string \<Rightarrow> string + bool" where
  "check_products_json_try w url =
     (case http_get w (urljoin url ''/products.json'') of
        Inl e \<Rightarrow> Inl e
      | Inr response \<Rightarrow>
          if status_code response = 200
          then (case json_has_products response of None \<Rightarrow> Inr False | Some b \<Rightarrow> Inr b)
          else Inr False)"

definition check_products_json :: "World \<Rightarrow> string \<Rightarrow> bool" where
  "check_products_json w url =
     (case check_products_json_try w url of Inl e \<Rightarrow> False | Inr b \<Rightarrow> b)"

text \<open>\<open>_check_page_source\<close>, in the same two layers.\<close>

definition check_page_source_try :: "World \<Rightarrow> string \<Rightarrow> string + string option" where
  "check_page_source_try w url =
     (case http_get w url of
        Inl e \<Rightarrow> Inl e
      | Inr response \<Rightarrow>
          if status_code response \<noteq> 200 then Inr None
          else
            let html = lower (body_text response) in
              case find (\<lambda>indicator. py_in (lower indicator) html) SHOPIFY_INDICATORS of
                Some indicator \<Rightarrow> Inr (Some (''source:'' @ indicator))
              | None \<Rightarrow>
                  if py_in ''content=\"shopify\"'' html then Inr (Some ''meta:shopify'')
                  else Inr None)"

definition check_page_source :: "World \<Rightarrow> string \<Rightarrow> string option" where
  "check_page_source w url =
     (case check_page_source_try w url of Inl e \<Rightarrow> None | Inr m \<Rightarrow> m)"

text \<open>
  \<open>ShopifyVerifier.verify\<close>. \<open>verify_try\<close> is the body of the \<open>try\<close> statement: it
  returns the dictionary (\<open>Inr\<close>) or raises (\<open>Inl\<close>). The two handlers of \<open>verify\<close>
  do the same, they store the message under \<open>error\<close>. An \<open>Inl\<close> result of
  \<open>verify\<close> itself would be an exception that leaves the method.
\<close>

definition verify_try :: "World \<Rightarrow> string \<Rightarrow> Verification \<Rightarrow> string + Verification" where
  "verify_try w url result =
     (if check_products_json w url
      then Inr (result\<lparr>is_shopify := True, v_platform := SHOPIFY,
                        detection_method := Some ''products.json''\<rparr>)
      else
        case check_page_source w url of
          Some method \<Rightarrow>
            if method \<noteq> []
            then Inr (result\<lparr>is_shopify := True, v_platform := SHOPIFY,
                              detection_method := Some method\<rparr>)
            else Inr (result\<lparr>v_platform := CUSTOM\<rparr>)
        | None \<Rightarrow> Inr (result\<lparr>v_platform := CUSTOM\<rparr>))"

definition verify :: "World \<Rightarrow> string \<Rightarrow> string + Verification" where
  "verify w url0 =
     (let result = \<lparr>is_shopify = False, v_platform = UNKNOWN, store_url = url0,
                     detection_method = None, error = None\<rparr>;
          url = with_scheme url0;
          result = result\<lparr>store_url := url\<rparr>
      in case verify_try w url result of
           Inl e \<Rightarrow> Inr (result\<lparr>error := Some e\<rparr>)
         | Inr r \<Rightarrow> Inr r)"

text \<open>
  \<open>detect_country_from_tld\<close>: the first entry of \<open>TLD_COUNTRY_MAP\<close>, in the
  order of the table, whose suffix ends the lower-cased network location and
  which has a country. The \<open>ValueError\<close> of \<open>urlparse\<close> is caught.
\<close>

definition detect_country_from_tld :: "string \<Rightarrow> string option" where
  "detect_country_from_tld url0 =
     (case urlparse_netloc (with_scheme url0) of
        None \<Rightarrow> None
      | Some loc \<Rightarrow>
          (case find (\<lambda>(tld, c). suffix tld (lower loc) \<and> truthy c) TLD_COUNTRY_MAP of
             Some (tld, c) \<Rightarrow> c
           | None \<Rightarrow> None))"

text \<open>\<open>ShopifyVerifier.detect_country\<close>: schema.org markup, then currency, then the top-level domain.\<close>

definition detect_country :: "World \<Rightarrow> string \<Rightarrow> string option" where
  "detect_country w url =
     (let country = schema_country w url in
        if truthy country then country
        else
          let country = currency_country w url in
            if truthy country then country
            else
              let country = detect_country_from_tld url in
                if truthy country then country else None)"

text \<open>The dictionary \<open>extract_store_info\<close> returns.\<close>

record StoreInfo =
  info_name :: "string option"
  info_email :: "string option"
  info_phone :: "string option"
  info_address :: "string option"
  info_description :: "string option"
  info_social_links :: "(string \<times> string) list"
  info_real_domain :: "string option"
  info_country :: "string option"

text \<open>
  \<open>ShopifyVerifier.extract_store_info\<close>: the country is detected last, and only
  when the main page was fetched; otherwise the dictionary stays as initialised.
\<close>

definition extract_store_info :: "World \<Rightarrow> string \<Rightarrow> StoreInfo" where
  "extract_store_info w url0 =
     (let url = with_scheme url0 in
        case scrape_store_page w url of
          None \<Rightarrow>
            \<lparr>info_name = None, info_email = None, info_phone = None, info_address = None,
             info_description = None, info_social_links = [], info_real_domain = None,
             info_country = None\<rparr>
        | Some page \<Rightarrow>
            \<lparr>info_name = page_name page, info_email = page_email page,
             info_phone = page_phone page, info_address = page_address page,
             info_description = page_description page,
             info_social_links = page_social_links page,
             info_real_domain = page_real_domain page,
             info_country = detect_country w url\<rparr>)"

section \<open>The cache operations\<close>

record CacheEntry =
  entry_lead_id :: string
  processed_at :: string

text \<open>
  The cache object: the dictionary \<open>_cache\<close> in memory, and the content of the
  JSON file as last written.
\<close>

record DeduplicationCache =
  entries :: "string \<rightharpoonup> CacheEntry"
  saved :: "string \<rightharpoonup> CacheEntry"

text \<open>\<open>_save_cache\<close>: an \<open>IOError\<close> on opening the file is logged and nothing is written.\<close>

definition save_cache :: "World \<Rightarrow> DeduplicationCache \<Rightarrow> DeduplicationCache" where
  "save_cache w c = (if cache_file_writable w then c\<lparr>saved := entries c\<rparr> else c)"

definition is_processed :: "DeduplicationCache \<Rightarrow> string \<Rightarrow> bool" where
  "is_processed c url = (entries c (normalize_url url) \<noteq> None)"

definition get_lead_id :: "DeduplicationCache \<Rightarrow> string \<Rightarrow> string option" where
  "get_lead_id c url = map_option entry_lead_id (entries c (normalize_url url))"

definition mark_processed :: "World \<Rightarrow> DeduplicationCache \<Rightarrow> string \<Rightarrow> string \<Rightarrow> DeduplicationCache" where
  "mark_processed w c url lid =
     save_cache w
       (c\<lparr>entries := (entries c)(normalize_url url \<mapsto>
                         \<lparr>entry_lead_id = lid, processed_at = utcnow w\<rparr>)\<rparr>)"

section \<open>Company enrichment: \<open>enrichment/linkedin.py\<close>\<close>

text \<open>
  \<open>_extract_domain\<close>, the second definition of that name in \<open>LinkedInFinder\<close>
  (it replaces the first) and the same text as
  \<open>LeadGenerationPipeline._extract_domain\<close>.
\<close>

definition extract_domain :: "string \<Rightarrow> string" where
  "extract_domain url0 =
     (let url = lower url0;
          url = replace ''http://'' [] (replace ''https://'' [] url);
          url = replace ''www.'' [] url
      in split_first ''/'' url)"

text \<open>
  \<open>int(s)\<close> for a string: surrounding whitespace, an optional sign, then decimal
  digits, single underscores allowed between them. \<open>None\<close> is the \<open>ValueError\<close>.
\<close>

definition digit_value :: "char \<Rightarrow> int option" where
  "digit_value c = map_of (zip ''0123456789'' [0, 1, 2, 3, 4, 5, 6, 7, 8, 9]) c"

fun digits_value :: "int \<Rightarrow> string \<Rightarrow> int" where
  "digits_value acc [] = acc"
| "digits_value acc (c # cs) =
     digits_value (10 * acc + (case digit_value c of Some d \<Rightarrow> d | None \<Rightarrow> 0)) cs"

definition py_int :: "string \<Rightarrow> int option" where
  "py_int s0 =
     (let s = strip s0;
          negative = prefix ''-'' s;
          body = (if prefix ''-'' s \<or> prefix ''+'' s then drop 1 s else s)
      in if body = [] \<or> \<not> list_all (\<lambda>c. digit_value c \<noteq> None \<or> c = CHR ''_'') body
            \<or> prefix ''_'' body \<or> suffix ''_'' body \<or> py_in ''__'' body
         then None
         else
           let v = digits_value 0 (filter (\<lambda>c. c \<noteq> CHR ''_'') body)
           in Some (if negative then - v else v))"

text \<open>Truth value of an employee count: zero and the empty string are false.\<close>

fun truthy_num :: "json_num option \<Rightarrow> bool" where
  "truthy_num None = False"
| "truthy_num (Some (NumInt n)) = (n \<noteq> 0)"
| "truthy_num (Some (NumStr s)) = (s \<noteq> [])"
| "truthy_num (Some NumOther) = True"

text \<open>\<open>a or b\<close> on such values, and on optional strings.\<close>

definition or_num :: "json_num option \<Rightarrow> json_num option \<Rightarrow> json_num option" where
  "or_num a b = (if truthy_num a then a else b)"

definition or_str :: "string option \<Rightarrow> string option \<Rightarrow> string option" where
  "or_str a b = (if truthy a then a else b)"

text \<open>
  \<^verbatim>\<open>int(employee_count) if isinstance(employee_count, (int, str)) else None\<close>;
  \<open>Inl\<close> is the \<open>ValueError\<close> of a string that is no number, which nothing in
  \<open>enrich_company\<close> catches.
\<close>

fun employee_count_of :: "json_num \<Rightarrow> string + int option" where
  "employee_count_of (NumInt n) = Inr (Some n)"
| "employee_count_of (NumStr s) =
     (case py_int s of None \<Rightarrow> Inl ''ValueError'' | Some n \<Rightarrow> Inr (Some n))"
| "employee_count_of NumOther = Inr None"

definition invalid_domains :: "string list" where
  "invalid_domains =
     [''myshopify.com'', ''linkedin.com'', ''linktr.ee'', ''linktree.com'',
      ''facebook.com'', ''instagram.com'', ''twitter.com'', ''x.com'',
      ''youtube.com'', ''tiktok.com'', ''bit.ly'', ''goo.gl'']"

text \<open>
  The part of \<open>enrich_company\<close> under \<^verbatim>\<open>if not company.country:\<close>: the
  \<open>addressCountry\<close> of \<open>mainAddress\<close> (a missing \<open>mainAddress\<close> reads as the empty
  dictionary), then the last part of the \<open>Headquarters\<close> text when it has two
  characters.
\<close>

definition linkedin_country :: "LinkedInData \<Rightarrow> Company \<Rightarrow> Company" where
  "linkedin_country d company0 =
     (if truthy (country company0) then company0
      else
        let company =
              (case li_mainAddress d of
                 None \<Rightarrow> company0\<lparr>country := None\<rparr>
               | Some (AddressDict c) \<Rightarrow> company0\<lparr>country := c\<rparr>
               | Some NotADict \<Rightarrow> company0)
        in if truthy (country company) then company
           else
             (case li_Headquarters d of
                None \<Rightarrow> company
              | Some hq_string \<Rightarrow>
                  if hq_string \<noteq> [] \<and> py_in '', '' hq_string
                  then
                    let potential_country = strip (split_last '', '' hq_string) in
                      if length potential_country = 2
                      then company\<lparr>country := Some (upper potential_country)\<rparr>
                      else company
                  else company))"

text \<open>The part of \<open>enrich_company\<close> that sets the primary domain.\<close>

definition linkedin_domain :: "LinkedInData \<Rightarrow> Company \<Rightarrow> Company" where
  "linkedin_domain d company0 =
     (let company =
            (case or_str (li_website d) (li_companyUrl d) of
               None \<Rightarrow> company0
             | Some linkedin_website \<Rightarrow>
                 if linkedin_website = [] then company0
                 else
                   let domain = extract_domain linkedin_website in
                     if domain \<noteq> [] \<and> \<not> list_ex (\<lambda>invalid. py_in invalid domain) invalid_domains
                     then company0\<lparr>primary_domain := Some domain\<rparr>
                     else company0)
      in if \<not> truthy (primary_domain company) \<and> website company \<noteq> []
         then
           let original_domain = extract_domain (website company) in
             if original_domain \<noteq> [] \<and> \<not> py_in ''myshopify.com'' original_domain
             then company\<lparr>primary_domain := Some original_domain\<rparr>
             else company
         else company)"

text \<open>
  \<open>founded\<close>: \<open>li_Founded\<close> and \<open>li_foundedYear\<close> hold the text \<open>str(value)\<close> of the
  entry; a \<open>ValueError\<close> of \<open>int\<close> is caught and the year stays as it was.
\<close>

definition linkedin_founded :: "LinkedInData \<Rightarrow> Company \<Rightarrow> Company" where
  "linkedin_founded d company0 =
     (case or_str (li_Founded d) (li_foundedYear d) of
        None \<Rightarrow> company0
      | Some founded \<Rightarrow>
          if founded = [] then company0
          else (case py_int (take 4 founded) of
                  None \<Rightarrow> company0
                | Some y \<Rightarrow> company0\<lparr>founded_year := Some y\<rparr>))"

text \<open>
  \<open>LinkedInFinder.enrich_company\<close>. The method changes the company object in
  place, so an exception leaves the changes made before it: the result is the
  company as the method leaves it, with the exception if one was raised.
\<close>

definition enrich_company :: "World \<Rightarrow> Company \<Rightarrow> Company \<times> string option" where
  "enrich_company w company0 =
     (case find_company w (name company0) (website company0) (primary_domain company0) of
        None \<Rightarrow> (company0, None)
      | Some d \<Rightarrow>
          let company = company0\<lparr>linkedin_url := li_linkedInUrl d\<rparr>;
              count = or_num (or_num (li_numberOfEmployees d) (li_employeeCount d))
                             (li_employee_count d);
              counted =
                (case count of
                   None \<Rightarrow> Inr company
                 | Some c \<Rightarrow>
                     if truthy_num count
                     then (case employee_count_of c of
                             Inl e \<Rightarrow> Inl e
                           | Inr n \<Rightarrow> Inr (company\<lparr>employee_count := n\<rparr>))
                     else Inr company)
          in case counted of
               Inl e \<Rightarrow> (company, Some e)
             | Inr counted_company \<Rightarrow>
                 let company = counted_company\<lparr>industry := or_str (li_Industry d) (li_industry d)\<rparr>;
                     company = company\<lparr>description :=
                                          or_str (li_description d) (description company)\<rparr>;
                     company = linkedin_founded d company;
                     company = linkedin_country d company;
                     company = linkedin_domain d company
                 in (company, None))"

text \<open>
  \<open>LinkedInFinder.find_decision_makers\<close>. Building a \<open>DecisionMaker\<close> from an
  employee whose \<open>name\<close> is \<open>null\<close> fails the model's validation; that exception
  leaves the method.
\<close>

fun employees_to_decision_makers :: "Employee list \<Rightarrow> string + DecisionMaker list" where
  "employees_to_decision_makers [] = Inr []"
| "employees_to_decision_makers (emp # emps) =
     (case emp_name emp of
        Null \<Rightarrow> Inl ''ValidationError''
      | nm \<Rightarrow>
          (case employees_to_decision_makers emps of
             Inl e \<Rightarrow> Inl e
           | Inr dms \<Rightarrow>
               Inr (\<lparr>dm_name = (case nm of Str s \<Rightarrow> s | _ \<Rightarrow> ''Unknown''),
                     title = emp_title emp, dm_linkedin_url = emp_linkedInUrl emp,
                     email = None, email_verified = False, phone = None,
                     location = emp_location emp\<rparr> # dms)))"

definition find_decision_makers :: "World \<Rightarrow> Company \<Rightarrow> nat \<Rightarrow> string + DecisionMaker list" where
  "find_decision_makers w company0 max_results =
     (case linkedin_url company0 of
        None \<Rightarrow> Inr []
      | Some u \<Rightarrow>
          if u = [] then Inr []
          else employees_to_decision_makers (find_employees w u max_results))"

section \<open>Hunter.io: \<open>enrichment/email_finder.py\<close>\<close>

text \<open>An entry of the \<open>decision_makers\<close> list of \<open>domain_search\<close>, and the dictionary it returns.\<close>

record HunterContact =
  contact_name :: string
  contact_email :: "string option"
  contact_title :: "string option"
  contact_confidence :: "int option"

record HunterResult =
  company_name :: "string option"
  hunter_country :: "string option"
  hunter_industry :: "string option"
  emails :: "HunterEmail list"
  decision_makers :: "HunterContact list"

definition executive_titles :: "string list" where
  "executive_titles =
     [''ceo'', ''founder'', ''owner'', ''director'', ''president'', ''chief'', ''head'']"

text \<open>A name part inside the f-string: a missing key reads as the empty text, \<open>null\<close> prints as \<open>None\<close>.\<close>

fun format_part :: "json_str \<Rightarrow> string" where
  "format_part Absent = []"
| "format_part Null = ''None''"
| "format_part (Str s) = s"

definition is_executive :: "HunterEmail \<Rightarrow> bool" where
  "is_executive email_data =
     (let pos = lower (case position email_data of None \<Rightarrow> [] | Some p \<Rightarrow> p)
      in list_ex (\<lambda>t. py_in t pos) executive_titles)"

definition to_contact :: "HunterEmail \<Rightarrow> HunterContact" where
  "to_contact email_data =
     \<lparr>contact_name = strip (format_part (first_name email_data) @ '' ''
                               @ format_part (last_name email_data)),
      contact_email = email_value email_data,
      contact_title = position email_data,
      contact_confidence = confidence email_data\<rparr>"

text \<open>
  \<open>EmailFinder.domain_search\<close>: every exception is caught and the result is
  returned as filled so far; the request is the only statement that raises on
  well-typed data, and then nothing is filled.
\<close>

definition domain_search :: "World \<Rightarrow> string \<Rightarrow> nat \<Rightarrow> HunterResult" where
  "domain_search w domain limit =
     (case hunter_domain_search w domain limit of
        None \<Rightarrow>
          \<lparr>company_name = None, hunter_country = None, hunter_industry = None,
           emails = [], decision_makers = []\<rparr>
      | Some d \<Rightarrow>
          \<lparr>company_name = organization d, hunter_country = hd_country d,
           hunter_industry = hd_industry d, emails = hd_emails d,
           decision_makers = map to_contact (filter is_executive (hd_emails d))\<rparr>)"

text \<open>
  The calls the pipeline makes to its collaborators, and the requests to the
  two Hunter.io endpoints that look one address up, in the order they happen.
\<close>

datatype call =
    CallVerify string
  | CallValidateEyewearStore string
  | CallExtractStoreInfo string
  | CallDomainSearch string
  | CallEnrichCompany
  | CallFindDecisionMakers
  | CallFindDecisionMakersFromWebsite string
  | CallEnrichDecisionMaker string
  | CallEmailFinder string string string
  | CallEmailVerifier string
  | CallGenerateOutreach
  | CallMarkProcessed string

text \<open>\<open>s.split()\<close> without argument: the maximal runs of characters that are not whitespace.\<close>

fun words_from :: "string \<Rightarrow> string \<Rightarrow> string list" where
  "words_from cur [] = (if cur = [] then [] else [cur])"
| "words_from cur (c # cs) =
     (if is_space c then (if cur = [] then words_from [] cs else cur # words_from [] cs)
      else words_from (cur @ [c]) cs)"

definition split_words :: "string \<Rightarrow> string list" where
  "split_words s = words_from [] s"



text \<open>
  \<open>EmailFinder.find_email(domain, full_name=...)\<close>: first and last name come from
  the full name; without a first name no request is made. The second component
  is the list of requests made.
\<close>

definition find_email :: "World \<Rightarrow> string \<Rightarrow> string \<Rightarrow> EmailData option \<times> call list" where
  "find_email w domain full_name =
     (let parts = (if full_name \<noteq> [] then split_words (strip full_name) else []) in
        case parts of
          [] \<Rightarrow> (None, [])
        | first # rest \<Rightarrow>
            if first = [] then (None, [])
            else (hunter_email_finder w domain first (join '' '' rest),
                  [CallEmailFinder domain first (join '' '' rest)]))"

text \<open>\<open>verify_email(email)["deliverable"]\<close>: the status is \<open>valid\<close>; false when the request raises.\<close>

definition verify_email_deliverable :: "World \<Rightarrow> string \<Rightarrow> bool" where
  "verify_email_deliverable w address =
     (case hunter_email_verifier w address of
        None \<Rightarrow> False
      | Some st \<Rightarrow> st = Some ''valid'')"

text \<open>\<open>EmailFinder.enrich_decision_maker\<close>, with the requests it makes.\<close>

definition enrich_decision_maker :: "World \<Rightarrow> DecisionMaker \<Rightarrow> string \<Rightarrow> DecisionMaker \<times> call list" where
  "enrich_decision_maker w dm domain =
     (if truthy (email dm) \<and> email_verified dm then (dm, [])
      else
        case find_email w domain (dm_name dm) of
          (None, cs) \<Rightarrow> (dm, cs)
        | (Some email_data, cs) \<Rightarrow>
            (dm\<lparr>email := Some (found_email email_data),
                email_verified := verify_email_deliverable w (found_email email_data)\<rparr>,
             cs @ [CallEmailVerifier (found_email email_data)]))"

section \<open>Website scraping: \<open>enrichment/alternative_sources.py\<close>\<close>

definition TEAM_PAGE_PATHS :: "string list" where
  "TEAM_PAGE_PATHS =
     [''/pages/about'', ''/pages/about-us'', ''/pages/our-story'', ''/pages/team'',
      ''/pages/our-team'', ''/pages/meet-the-team'', ''/about'', ''/about-us'',
      ''/team'', ''/our-story'']"

text \<open>The loop over the team pages: it stops once three candidates are collected.\<close>

fun scrape_team_pages :: "World \<Rightarrow> string \<Rightarrow> DecisionMaker list \<Rightarrow> string list \<Rightarrow> DecisionMaker list" where
  "scrape_team_pages w url found [] = found"
| "scrape_team_pages w url found (path # paths) =
     (let found' = found @ scrape_team_page w (urljoin url path) in
        if length found' \<ge> 3 then found' else scrape_team_pages w url found' paths)"

text \<open>The deduplication loop: \<open>seen\<close> holds the lower-cased names met so far.\<close>

fun unique_by_name :: "string list \<Rightarrow> DecisionMaker list \<Rightarrow> DecisionMaker list" where
  "unique_by_name seen [] = []"
| "unique_by_name seen (dm # dms) =
     (if lower (dm_name dm) \<in> set seen then unique_by_name seen dms
      else dm # unique_by_name (lower (dm_name dm) # seen) dms)"

text \<open>\<open>AlternativeSourceFinder.find_decision_makers_from_website\<close>.\<close>

definition find_decision_makers_from_website :: "World \<Rightarrow> string \<Rightarrow> DecisionMaker list" where
  "find_decision_makers_from_website w url0 =
     (let url = with_scheme url0;
          found = (case find_from_schema w url of None \<Rightarrow> [] | Some dm \<Rightarrow> [dm]);
          found = scrape_team_pages w url found TEAM_PAGE_PATHS
      in take 5 (unique_by_name [] found))"

section \<open>The pipeline: \<open>pipeline.py\<close>\<close>

text \<open>\<open>s.title()\<close>: a letter after a letter is lower-cased, any other letter is upper-cased.\<close>

fun title_from :: "bool \<Rightarrow> string \<Rightarrow> string" where
  "title_from after_letter [] = []"
| "title_from after_letter (c # cs) =
     (if c \<in> set lower_letters
      then (if after_letter then c else upper_char c) # title_from True cs
      else if c \<in> set upper_letters
      then (if after_letter then lower_char c else c) # title_from True cs
      else c # title_from False cs)"

text \<open>\<open>_extract_company_name\<close>.\<close>

definition extract_company_name :: "string \<Rightarrow> string" where
  "extract_company_name url = title_from False (split_first ''.'' (extract_domain url))"

text \<open>\<open>a or b\<close> where \<open>a\<close> is an optional string and \<open>b\<close> a string.\<close>

definition or_else :: "string option \<Rightarrow> string \<Rightarrow> string" where
  "or_else a b = (case a of None \<Rightarrow> b | Some s \<Rightarrow> if s = [] then b else s)"

text \<open>
  Step 4 of \<open>process_url\<close>: the company built from the verification and the
  store information, with the LinkedIn link of the store page if there is one.
\<close>

definition build_company :: "string \<Rightarrow> Segment option \<Rightarrow> Verification \<Rightarrow> StoreInfo \<Rightarrow> Company" where
  "build_company url seg verification store_info =
     (let original_domain = extract_domain url;
          primary =
            (if truthy (info_real_domain store_info) then info_real_domain store_info
             else if \<not> py_in ''myshopify.com'' original_domain then Some original_domain
             else None);
          company_name = or_else (info_name store_info) (extract_company_name url);
          c = \<lparr>name = company_name, website = url,
               shopify_url = (if is_shopify verification
                              then Some (store_url verification) else None),
               primary_domain = primary, platform = v_platform verification,
               industry = None, segment = seg, country = info_country store_info,
               employee_count = None, linkedin_url = None,
               description = info_description store_info, founded_year = None\<rparr>
      in if truthy (map_of (info_social_links store_info) ''linkedin'')
         then c\<lparr>linkedin_url := map_of (info_social_links store_info) ''linkedin''\<rparr>
         else c)"

text \<open>
  \<open>Lead(lead_id=lead_id, company=company, source="manual")\<close>. The lead holds the
  company object itself, so what the later steps change in \<open>company\<close> is changed
  in \<open>lead.company\<close>; the model keeps the company inside the lead only.
\<close>

definition new_lead :: "World \<Rightarrow> Company \<Rightarrow> Lead" where
  "new_lead w c =
     \<lparr>lead_id = uuid4 w, company = c, decision_maker = None,
      qualification = \<lparr>score = 0, is_qualified = False, fit_notes = None,
                        scoring_breakdown = []\<rparr>,
      outreach = None, status = NEW, source = Some ''manual'',
      created_at = utcnow w, updated_at = utcnow w, lead_notes = None\<rparr>"

text \<open>
  Step 5. \<open>search_domain\<close> is the variable \<open>domain\<close>, which step 8 uses again;
  \<open>searchable\<close> is the test \<^verbatim>\<open>domain and "myshopify.com" not in domain\<close>.
\<close>

definition search_domain :: "string \<Rightarrow> Company \<Rightarrow> string" where
  "search_domain url c = or_else (primary_domain c) (extract_domain url)"

definition searchable :: "string \<Rightarrow> bool" where
  "searchable domain = (domain \<noteq> [] \<and> \<not> py_in ''myshopify.com'' domain)"

text \<open>The three assignments that fill missing company data from the Hunter.io result.\<close>

definition hunter_fill :: "HunterResult \<Rightarrow> Company \<Rightarrow> Company" where
  "hunter_fill hunter_data c0 =
     (let c = (case company_name hunter_data of
                 None \<Rightarrow> c0
               | Some n \<Rightarrow> if n \<noteq> [] \<and> name c0 = [] then c0\<lparr>name := n\<rparr> else c0);
          c = (if truthy (hunter_country hunter_data) \<and> \<not> truthy (country c)
               then c\<lparr>country := hunter_country hunter_data\<rparr> else c);
          c = (if truthy (hunter_industry hunter_data) \<and> \<not> truthy (industry c)
               then c\<lparr>industry := hunter_industry hunter_data\<rparr> else c)
      in c)"

text \<open>
  Step 5 as a whole: the company after it, the value of \<open>hunter_data\<close>, and the
  calls made. \<open>domain_search\<close> catches every exception, so the handler of this
  step has nothing to catch.
\<close>

definition hunter_step :: "World \<Rightarrow> string \<Rightarrow> Company \<Rightarrow> Company \<times> HunterResult option \<times> call list" where
  "hunter_step w url c =
     (let domain = search_domain url c in
        if searchable domain
        then (let hunter_data = domain_search w domain 10
              in (hunter_fill hunter_data c, Some hunter_data, [CallDomainSearch domain]))
        else (c, None, []))"

text \<open>
  Step 6: the company as \<open>enrich_company\<close> leaves it. When the method raises,
  the handler logs the exception and the object keeps what was changed in it.
\<close>

definition linkedin_step :: "World \<Rightarrow> Company \<Rightarrow> Company" where
  "linkedin_step w c = fst (enrich_company w c)"

text \<open>The country fallback after step 6: the top-level domain of the URL, when no country is set.\<close>

definition tld_fallback :: "string \<Rightarrow> Company \<Rightarrow> Company" where
  "tld_fallback url c =
     (if \<not> truthy (country c)
      then (let tld_country = detect_country_from_tld url in
              if truthy tld_country then c\<lparr>country := tld_country\<rparr> else c)
      else c)"

text \<open>
  Step 7, strategy 2: the decision maker built from the first Hunter.io contact.
  The comparison \<^verbatim>\<open>dm_data.get("confidence", 0) > 80\<close> raises \<open>TypeError\<close> when the
  entry holds \<open>None\<close> (the key is always there, so the default 0 is never
  used); no handler is around it.
\<close>

definition hunter_decision_maker :: "HunterContact \<Rightarrow> string + DecisionMaker" where
  "hunter_decision_maker dm_data =
     (case contact_confidence dm_data of
        None \<Rightarrow> Inl ''TypeError''
      | Some conf \<Rightarrow>
          Inr \<lparr>dm_name = contact_name dm_data, title = contact_title dm_data,
               dm_linkedin_url = None, email = contact_email dm_data,
               email_verified = (conf > 80), phone = None, location = None\<rparr>)"

text \<open>The four strategies of step 7. Each gives the decision maker of the lead after it and the calls it made.\<close>

definition strategy_linkedin :: "World \<Rightarrow> Company \<Rightarrow> DecisionMaker option \<times> call list" where
  "strategy_linkedin w c =
     (case find_decision_makers w c 3 of
        Inl e \<Rightarrow> (None, [CallFindDecisionMakers])
      | Inr [] \<Rightarrow> (None, [CallFindDecisionMakers])
      | Inr (dm # dms) \<Rightarrow> (Some dm, [CallFindDecisionMakers]))"

definition strategy_hunter :: "HunterResult option \<Rightarrow> DecisionMaker option \<Rightarrow> string + DecisionMaker option" where
  "strategy_hunter hunter_data found =
     (case found of
        Some dm \<Rightarrow> Inr found
      | None \<Rightarrow>
          (case hunter_data of
             None \<Rightarrow> Inr None
           | Some h \<Rightarrow>
               (case decision_makers h of
                  [] \<Rightarrow> Inr None
                | dm_data # rest \<Rightarrow>
                    (case hunter_decision_maker dm_data of
                       Inl e \<Rightarrow> Inl e
                     | Inr dm \<Rightarrow> Inr (Some dm)))))"

definition strategy_website :: "World \<Rightarrow> Verification \<Rightarrow> DecisionMaker option \<Rightarrow> DecisionMaker option \<times> call list" where
  "strategy_website w verification found =
     (case found of
        Some dm \<Rightarrow> (found, [])
      | None \<Rightarrow>
          (case find_decision_makers_from_website w (store_url verification) of
             [] \<Rightarrow> (None, [CallFindDecisionMakersFromWebsite (store_url verification)])
           | dm # dms \<Rightarrow> (Some dm, [CallFindDecisionMakersFromWebsite (store_url verification)])))"

definition strategy_store_email :: "StoreInfo \<Rightarrow> DecisionMaker option \<Rightarrow> DecisionMaker option" where
  "strategy_store_email store_info found =
     (case found of
        Some dm \<Rightarrow> found
      | None \<Rightarrow>
          if truthy (info_email store_info)
          then Some \<lparr>dm_name = ''Store Contact'', title = None, dm_linkedin_url = None,
                     email = info_email store_info, email_verified = False,
                     phone = None, location = None\<rparr>
          else None)"

text \<open>
  Step 7: the decision maker of the lead after the four strategies and the
  calls made; \<open>Inl\<close> is the exception of strategy 2, which leaves \<open>process_url\<close>.
\<close>

definition decision_maker_cascade ::
  "World \<Rightarrow> Verification \<Rightarrow> StoreInfo \<Rightarrow> HunterResult option \<Rightarrow> Company
     \<Rightarrow> (string + DecisionMaker option) \<times> call list" where
  "decision_maker_cascade w verification store_info hunter_data c =
     (case strategy_linkedin w c of
        (found1, calls1) \<Rightarrow>
          (case strategy_hunter hunter_data found1 of
             Inl e \<Rightarrow> (Inl e, calls1)
           | Inr found2 \<Rightarrow>
               (case strategy_website w verification found2 of
                  (found3, calls3) \<Rightarrow>
                    (Inr (strategy_store_email store_info found3), calls1 @ calls3))))"

text \<open>Step 8: the decision maker after it and the calls made.\<close>

definition email_step :: "World \<Rightarrow> string \<Rightarrow> DecisionMaker option \<Rightarrow> DecisionMaker option \<times> call list" where
  "email_step w domain found =
     (case found of
        None \<Rightarrow> (None, [])
      | Some dm \<Rightarrow>
          if truthy (email dm) \<and> email_verified dm then (Some dm, [])
          else if searchable domain
          then (case enrich_decision_maker w dm domain of
                  (dm', cs) \<Rightarrow> (Some dm', CallEnrichDecisionMaker domain # cs))
          else (Some dm, []))"

text \<open>Step 10: the copy is stored in the lead; when the copywriter raises, the lead stays without it.\<close>

definition outreach_step :: "World \<Rightarrow> Lead \<Rightarrow> Lead \<times> call list" where
  "outreach_step w lead =
     (if platform (company lead) = SHOPIFY
      then (case generate_outreach w lead of
              None \<Rightarrow> (lead, [CallGenerateOutreach])
            | Some copy \<Rightarrow> (lead\<lparr>outreach := Some copy\<rparr>, [CallGenerateOutreach]))
      else (lead, []))"

text \<open>
  What a run of \<open>process_url\<close> leaves: the value returned (\<open>Inl\<close> when an
  exception leaves the method), the cache, and the calls made.
\<close>

record Outcome =
  returned :: "string + Lead option"
  cache_after :: DeduplicationCache
  calls :: "call list"

text \<open>Steps 3 to 10 for a verified store: the scored lead, or the exception, and the calls made.\<close>

definition process_store ::
  "World \<Rightarrow> string \<Rightarrow> Segment option \<Rightarrow> Verification \<Rightarrow> (string + Lead) \<times> call list" where
  "process_store w url seg verification =
     (let store_info = extract_store_info w (store_url verification);
          c = build_company url seg verification store_info;
          lead = new_lead w c;
          domain = search_domain url c
      in case hunter_step w url c of
           (c5, hunter_data, calls5) \<Rightarrow>
             let c6 = linkedin_step w c5;
                 c7 = tld_fallback url c6
             in case decision_maker_cascade w verification store_info hunter_data c7 of
                  (Inl e, calls7) \<Rightarrow>
                    (Inl e, [CallExtractStoreInfo (store_url verification)] @ calls5
                            @ [CallEnrichCompany] @ calls7)
                | (Inr found, calls7) \<Rightarrow>
                    (case email_step w domain found of
                       (found8, calls8) \<Rightarrow>
                         let lead = lead\<lparr>company := c7, decision_maker := found8\<rparr>;
                             lead = LeadScorer_score (LeadScorer_init QUALIFICATION_THRESHOLD None) lead
                         in case outreach_step w lead of
                              (lead10, calls10) \<Rightarrow>
                                (Inr lead10,
                                 [CallExtractStoreInfo (store_url verification)] @ calls5
                                 @ [CallEnrichCompany] @ calls7 @ calls8 @ calls10)))"

text \<open>\<open>LeadGenerationPipeline.process_url\<close>.\<close>

definition process_url ::
  "World \<Rightarrow> DeduplicationCache \<Rightarrow> string \<Rightarrow> Segment option \<Rightarrow> bool \<Rightarrow> bool \<Rightarrow> Outcome" where
  "process_url w cache url seg skip_validation force =
     (if \<not> force \<and> is_processed cache url
      then \<lparr>returned = Inr None, cache_after = cache, calls = []\<rparr>
      else
        case verify w url of
          Inl e \<Rightarrow> \<lparr>returned = Inl e, cache_after = cache, calls = [CallVerify url]\<rparr>
        | Inr verification \<Rightarrow>
            if v_platform verification \<noteq> SHOPIFY
            then \<lparr>returned = Inr None, cache_after = cache, calls = [CallVerify url]\<rparr>
            else if \<not> skip_validation \<and> (seg = Some EYEWEAR \<or> seg = Some SUNGLASSES)
                    \<and> \<not> is_eyewear_store (validate_eyewear_store w (store_url verification))
            then \<lparr>returned = Inr None, cache_after = cache,
                  calls = [CallVerify url, CallValidateEyewearStore (store_url verification)]\<rparr>
            else
              let gate_calls =
                    CallVerify url #
                    (if \<not> skip_validation \<and> (seg = Some EYEWEAR \<or> seg = Some SUNGLASSES)
                     then [CallValidateEyewearStore (store_url verification)] else [])
              in case process_store w url seg verification of
                   (Inl e, store_calls) \<Rightarrow>
                     \<lparr>returned = Inl e, cache_after = cache, calls = gate_calls @ store_calls\<rparr>
                 | (Inr lead, store_calls) \<Rightarrow>
                     \<lparr>returned = Inr (Some lead),
                      cache_after = mark_processed w cache url (lead_id lead),
                      calls = gate_calls @ store_calls @ [CallMarkProcessed url]\<rparr>)"

section \<open>Example worlds\<close>

text \<open>A world in which every request fails: no page answers and no service has data.\<close>

definition offline_world :: World where
  "offline_world =
     \<lparr>http_get = (\<lambda>u. Inl ''ConnectError''),
      scrape_store_page = (\<lambda>u. None),
      schema_country = (\<lambda>u. None),
      currency_country = (\<lambda>u. None),
      validate_eyewear_store =
        (\<lambda>u. \<lparr>is_eyewear_store = False,
                 rejection_reason = Some ''Cannot access products.json''\<rparr>),
      hunter_domain_search = (\<lambda>d n. None),
      hunter_email_finder = (\<lambda>d f l. None),
      hunter_email_verifier = (\<lambda>a. None),
      find_company = (\<lambda>n u p. None),
      find_employees = (\<lambda>u n. []),
      find_from_schema = (\<lambda>u. None),
      scrape_team_page = (\<lambda>u. []),
      generate_outreach = (\<lambda>l. None),
      uuid4 = ''0a1b2c3d'',
      utcnow = ''2025-01-01T00:00:00'',
      cache_file_writable = True\<rparr>"

definition empty_cache :: DeduplicationCache where
  "empty_cache = \<lparr>entries = Map.empty, saved = Map.empty\<rparr>"

text \<open>
  A Shopify store at \<open>shop.de\<close>: its product feed answers, its page carries
  neither schema.org markup nor a currency, and LinkedIn has the company with a
  registered address in France.
\<close>

definition shop_page :: StorePage where
  "shop_page =
     \<lparr>page_name = Some ''Shop'', page_email = None, page_phone = None,
      page_address = None, page_description = None, page_social_links = [],
      page_real_domain = None\<rparr>"

definition shop_linkedin :: LinkedInData where
  "shop_linkedin =
     \<lparr>li_linkedInUrl = Some ''https://www.linkedin.com/company/shop'',
      li_numberOfEmployees = Some (NumInt 30), li_employeeCount = None,
      li_employee_count = None, li_Industry = None, li_industry = None,
      li_description = None, li_Founded = None, li_foundedYear = None,
      li_mainAddress = Some (AddressDict (Some ''FR'')), li_Headquarters = None,
      li_website = None, li_companyUrl = None\<rparr>"

definition shop_world :: World where
  "shop_world =
     offline_world
       \<lparr>http_get := (\<lambda>u. if u = ''https://shop.de/products.json''
                          then Inr \<lparr>status_code = 200, body_text = ''{}'',
                                    json_has_products = Some True\<rparr>
                          else Inl ''ConnectError''),
        scrape_store_page := (\<lambda>u. Some shop_page),
        find_company := (\<lambda>n u p. Some shop_linkedin)\<rparr>"

text \<open>What the run on \<open>shop.de\<close> in that world produces.\<close>

definition shop_verification :: Verification where
  "shop_verification =
     \<lparr>is_shopify = True, v_platform = SHOPIFY, store_url = ''https://shop.de'',
      detection_method = Some ''products.json'', error = None\<rparr>"

definition shop_company :: Company where
  "shop_company =
     \<lparr>name = ''Shop'', website = ''shop.de'', shopify_url = Some ''https://shop.de'',
      primary_domain = Some ''shop.de'', platform = SHOPIFY, industry = None,
      segment = None, country = Some ''DE'', employee_count = Some 30,
      linkedin_url = Some ''https://www.linkedin.com/company/shop'',
      description = None, founded_year = None\<rparr>"

definition shop_lead :: Lead where
  "shop_lead =
     \<lparr>lead_id = ''0a1b2c3d'', company = shop_company, decision_maker = None,
      qualification =
        \<lparr>score = 75, is_qualified = True,
         fit_notes = Some ''Strengths: Shopify platform, ideal company size, target geography'',
         scoring_breakdown =
           [(''platform_shopify'', Points 20), (''company_size_sweet_spot'', Points 15),
            (''target_geography'', Points 15), (''ecommerce_presence'', Points 10),
            (''no_rx_eyewear'', Points 15)]\<rparr>,
      outreach = None, status = NEW, source = Some ''manual'',
      created_at = ''2025-01-01T00:00:00'', updated_at = ''2025-01-01T00:00:00'',
      lead_notes = None\<rparr>"

definition shop_company_built :: Company where
  "shop_company_built =
     \<lparr>name = ''Shop'', website = ''shop.de'', shopify_url = Some ''https://shop.de'',
      primary_domain = Some ''shop.de'', platform = SHOPIFY, industry = None,
      segment = None, country = Some ''DE'', employee_count = None,
      linkedin_url = None, description = None, founded_year = None\<rparr>"

section \<open>The country sources in priority order\<close>

text \<open>
  The specification describes country resolution as a cascade: the first source
  in a fixed order that yields a value wins. \<open>first_truthy\<close> is that rule; the
  definitions after it name what each pipeline-level source offers.
\<close>

fun first_truthy :: "string option list \<Rightarrow> string option" where
  "first_truthy [] = None"
| "first_truthy (x # xs) = (if truthy x then x else first_truthy xs)"

text \<open>The country of the Hunter.io domain search, when step 5 runs the search.\<close>

definition hunter_offer :: "World \<Rightarrow> string \<Rightarrow> Company \<Rightarrow> string option" where
  "hunter_offer w url c =
     (if searchable (search_domain url c)
      then hunter_country (domain_search w (search_domain url c) 10) else None)"






section \<open>Decision-maker candidates\<close>








definition no_store_info :: StoreInfo where
  "no_store_info =
     \<lparr>info_name = None, info_email = None, info_phone = None, info_address = None,
      info_description = None, info_social_links = [], info_real_domain = None,
      info_country = None\<rparr>"

text \<open>
  A Hunter.io result whose first executive contact has an address with
  confidence 95, and the decision maker strategy 2 builds from it.
\<close>

definition ada_contact :: HunterContact where
  "ada_contact =
     \<lparr>contact_name = ''Ada Martin'', contact_email = Some ''ada@shop.de'',
      contact_title = Some ''CEO'', contact_confidence = Some 95\<rparr>"

definition ada_hunter_result :: HunterResult where
  "ada_hunter_result =
     \<lparr>company_name = Some ''Shop'', hunter_country = None, hunter_industry = None,
      emails = [], decision_makers = [ada_contact]\<rparr>"

definition ada_from_hunter :: DecisionMaker where
  "ada_from_hunter =
     \<lparr>dm_name = ''Ada Martin'', title = Some ''CEO'', dm_linkedin_url = None,
      email = Some ''ada@shop.de'', email_verified = True, phone = None, location = None\<rparr>"

section \<open>Verification\<close>

subsection \<open>Strings and the scorer\<close>

lemmas string_ops = strip_def lower_def lower_char_def upper_def upper_char_def upper_letters_def lower_letters_def replace_def split_first_def split_def is_space_def


lemma weight_simps: "weight ''platform_shopify'' = 20" "weight ''company_size_sweet_spot'' = 15"
  "weight ''company_size_good'' = 10" "weight ''target_geography'' = 15" "weight ''ecommerce_presence'' = 10"
  "weight ''no_rx_eyewear'' = 15" "weight ''decision_maker_found'' = 10" "weight ''email_verified'' = 5"
  by (simp_all add: weight_def SCORING_WEIGHTS_def)

lemma dict_set_fresh: "key \<notin> fst ` set bd \<Longrightarrow> dict_set key v bd = bd @ [(key, v)]"
  by (induction bd) auto

lemma satisfied_keys: "set (satisfied lead table) \<subseteq> fst ` set table"
  by (auto simp: satisfied_def)

lemma awarded_step:
  assumes "t = awarded lead table" "key \<notin> fst ` set table" "table' = table @ [(key, holds)]"
  shows "(if holds lead then award key t else t) = awarded lead table'"
proof -
  have "key \<notin> fst ` set (fst (awarded lead table))"
    using assms(2) satisfied_keys [of lead table] by (auto simp: awarded_def)
  then show ?thesis
    unfolding assms(1,3)
    by (simp add: award_def dict_set_fresh) (simp add: awarded_def satisfied_def)
qed

lemma awarded_Nil: "awarded lead [] = ([], 0)"
  by (simp add: awarded_def satisfied_def)

lemma size_step:
  "(case employee_count (company lead) of
      None \<Rightarrow> t
    | Some n \<Rightarrow>
        if n = 0 then t
        else if COMPANY_SIZE_SWEET_SPOT_MIN \<le> n \<and> n \<le> COMPANY_SIZE_SWEET_SPOT_MAX
        then award ''company_size_sweet_spot'' t
        else if COMPANY_SIZE_MIN \<le> n \<and> n \<le> COMPANY_SIZE_MAX
        then award ''company_size_good'' t
        else t)
   = (if in_sweet_spot lead then award ''company_size_sweet_spot'' t
      else if in_good_size lead then award ''company_size_good'' t else t)"
  by (auto simp: in_sweet_spot_def in_good_size_def split: option.split)

lemma size_exclusive: "\<not> (in_sweet_spot lead \<and> in_good_size lead)"
  by (simp add: in_sweet_spot_def in_good_size_def split: option.split)

lemma run_criteria_awarded: "run_criteria lead = awarded lead criteria"
proof -
  define c where "c = company lead"
  define dm where "dm = decision_maker lead"
  define t1 where "t1 = (if platform c = SHOPIFY then award ''platform_shopify'' ([], 0) else ([], 0))"
  define t2 where "t2 = (case employee_count c of
                 None \<Rightarrow> t1
               | Some n \<Rightarrow>
                   if n = 0 then t1
                   else if COMPANY_SIZE_SWEET_SPOT_MIN \<le> n \<and> n \<le> COMPANY_SIZE_SWEET_SPOT_MAX
                   then award ''company_size_sweet_spot'' t1
                   else if COMPANY_SIZE_MIN \<le> n \<and> n \<le> COMPANY_SIZE_MAX
                   then award ''company_size_good'' t1
                   else t1)"
  define t3 where "t3 = (if in_target_geography c then award ''target_geography'' t2 else t2)"
  define t4 where "t4 = (if truthy (shopify_url c) \<or> platform c = SHOPIFY
               then award ''ecommerce_presence'' t3 else t3)"
  define t5 where "t5 = (if \<not> sells_prescription_eyewear c then award ''no_rx_eyewear'' t4 else t4)"
  define t6 where "t6 = (if dm_found dm then award ''decision_maker_found'' t5 else t5)"
  define t7 where "t7 = (if dm_verified dm then award ''email_verified'' t6 else t6)"
  have r: "run_criteria lead = t7"
    unfolding run_criteria_def Let_def t7_def t6_def t5_def t4_def t3_def t2_def t1_def c_def dm_def
    by (rule refl)
  let ?c1 = "(''platform_shopify'', \<lambda>lead. platform (company lead) = SHOPIFY)"
  let ?c2 = "(''company_size_sweet_spot'', in_sweet_spot)"
  let ?c3 = "(''company_size_good'', in_good_size)"
  let ?c4 = "(''target_geography'', \<lambda>lead. in_target_geography (company lead))"
  let ?c5 = "(''ecommerce_presence'',
         \<lambda>lead. truthy (shopify_url (company lead)) \<or> platform (company lead) = SHOPIFY)"
  let ?c6 = "(''no_rx_eyewear'', \<lambda>lead. \<not> sells_prescription_eyewear (company lead))"
  let ?c7 = "(''decision_maker_found'', \<lambda>lead. dm_found (decision_maker lead))"
  let ?c8 = "(''email_verified'', \<lambda>lead. dm_verified (decision_maker lead))"
  have k0: "([], 0) = awarded lead []"
    by (simp add: awarded_Nil)
  have k1: "t1 = awarded lead [?c1]"
    unfolding t1_def c_def
    by (rule awarded_step [OF k0, of "''platform_shopify''" _
                              "\<lambda>lead. platform (company lead) = SHOPIFY"]) simp_all
  have k2a: "(if in_sweet_spot lead then award ''company_size_sweet_spot'' t1 else t1)
             = awarded lead [?c1, ?c2]"
    by (rule awarded_step [OF k1, of "''company_size_sweet_spot''" _ in_sweet_spot]) simp_all
  have k2: "t2 = awarded lead [?c1, ?c2, ?c3]"
  proof -
    have "t2 = (if in_good_size lead
                then award ''company_size_good''
                       (if in_sweet_spot lead then award ''company_size_sweet_spot'' t1 else t1)
                else (if in_sweet_spot lead then award ''company_size_sweet_spot'' t1 else t1))"
      unfolding t2_def c_def size_step using size_exclusive [of lead] by auto
    also have "\<dots> = awarded lead [?c1, ?c2, ?c3]"
      by (rule awarded_step [OF k2a, of "''company_size_good''" _ in_good_size]) simp_all
    finally show ?thesis .
  qed
  have k3: "t3 = awarded lead [?c1, ?c2, ?c3, ?c4]"
    unfolding t3_def c_def
    by (rule awarded_step [OF k2, of "''target_geography''" _
                              "\<lambda>lead. in_target_geography (company lead)"]) simp_all
  have k4: "t4 = awarded lead [?c1, ?c2, ?c3, ?c4, ?c5]"
    unfolding t4_def c_def
    by (rule awarded_step [OF k3, of "''ecommerce_presence''" _
          "\<lambda>lead. truthy (shopify_url (company lead)) \<or> platform (company lead) = SHOPIFY"]) simp_all
  have k5: "t5 = awarded lead [?c1, ?c2, ?c3, ?c4, ?c5, ?c6]"
    unfolding t5_def c_def
    by (rule awarded_step [OF k4, of "''no_rx_eyewear''" _
          "\<lambda>lead. \<not> sells_prescription_eyewear (company lead)"]) simp_all
  have k6: "t6 = awarded lead [?c1, ?c2, ?c3, ?c4, ?c5, ?c6, ?c7]"
    unfolding t6_def dm_def
    by (rule awarded_step [OF k5, of "''decision_maker_found''" _
          "\<lambda>lead. dm_found (decision_maker lead)"]) simp_all
  have k7: "t7 = awarded lead [?c1, ?c2, ?c3, ?c4, ?c5, ?c6, ?c7, ?c8]"
    unfolding t7_def dm_def
    by (rule awarded_step [OF k6, of "''email_verified''" _
          "\<lambda>lead. dm_verified (decision_maker lead)"]) simp_all
  show ?thesis
    unfolding r k7 criteria_def by (rule refl)
qed









lemma score_not_excluded:
  assumes "\<not> is_excluded self (name (company lead))"
  shows "qualification (LeadScorer_score self lead) =
           \<lparr>score = sum_list (map weight (satisfied lead criteria)),
            is_qualified = (threshold self \<le> sum_list (map weight (satisfied lead criteria))),
            fit_notes = Some (generate_fit_notes
                                (map (\<lambda>key. (key, Points (weight key))) (satisfied lead criteria))
                                (sum_list (map weight (satisfied lead criteria)))
                                (threshold self \<le> sum_list (map weight (satisfied lead criteria)))),
            scoring_breakdown = map (\<lambda>key. (key, Points (weight key))) (satisfied lead criteria)\<rparr>"
  using assms by (simp add: LeadScorer_score_def run_criteria_awarded awarded_def Let_def)



text \<open>
  Claim C6. For a lead whose company is not excluded, \<open>qualified\<close> is true exactly
  when the score is greater than or equal to the scorer's threshold.
\<close>

theorem qualified_iff_threshold:
  "\<not> is_excluded self (name (company lead)) \<Longrightarrow>
   is_qualified (qualification (LeadScorer_score self lead))
     = (score (qualification (LeadScorer_score self lead)) \<ge> threshold self)"
  by (simp add: LeadScorer_score_def Let_def split: prod.split)


text \<open>
  Claim C3. \<open>normalize_url\<close> is not idempotent: removing \<open>"www."\<close> from
  \<open>"wwwww.w.x"\<close> brings a new \<open>"www."\<close> together, which the same call does not
  remove and the next call does.
\<close>

theorem normalize_url_not_idempotent:
  "normalize_url ''wwwww.w.x'' = ''www.x'' \<and> normalize_url ''www.x'' = ''x'' \<and>
   normalize_url (normalize_url ''wwwww.w.x'') \<noteq> normalize_url ''wwwww.w.x''"
  by (simp add: normalize_url_def string_ops)

lemmas example_defs = example_lead_def example_company_def example_dm_def
  default_qualification_def excluded_lead_def boundary_lead_def

lemma example_not_excluded: "\<not> is_excluded (LeadScorer_init thr None) ''Iron Paris''"
  by (simp add: is_excluded_def LeadScorer_init_def EXCLUSION_LIST_def string_ops)


lemma boundary_satisfied:
  "satisfied boundary_lead criteria =
     [''platform_shopify'', ''target_geography'', ''ecommerce_presence'', ''email_verified'']"
  by (simp add: satisfied_def criteria_def example_defs in_sweet_spot_def in_good_size_def
        in_target_geography_def sells_prescription_eyewear_def dm_found_def dm_verified_def
        TARGET_COUNTRIES_def rx_terms_def string_ops)


text \<open>
  The boundary lead scores 50: with threshold 50 it is qualified, with threshold
  51 (one point above its score) it is not.
\<close>

theorem qualified_iff_threshold_witness:
  "\<not> is_excluded (LeadScorer_init 50 None) (name (company boundary_lead)) \<and>
   score (qualification (LeadScorer_score (LeadScorer_init 50 None) boundary_lead)) = 50 \<and>
   is_qualified (qualification (LeadScorer_score (LeadScorer_init 50 None) boundary_lead)) \<and>
   \<not> is_excluded (LeadScorer_init 51 None) (name (company boundary_lead)) \<and>
   score (qualification (LeadScorer_score (LeadScorer_init 51 None) boundary_lead)) = 50 \<and>
   \<not> is_qualified (qualification (LeadScorer_score (LeadScorer_init 51 None) boundary_lead))"
proof -
  have h: "\<not> is_excluded (LeadScorer_init thr None) (name (company boundary_lead))" for thr
    using example_not_excluded [of thr] by (simp add: example_defs)
  have s: "score (qualification (LeadScorer_score (LeadScorer_init thr None) boundary_lead)) = 50" for thr
    by (simp add: score_not_excluded [OF h] boundary_satisfied weight_simps)
  show ?thesis
    using qualified_iff_threshold [OF h [of 50]] qualified_iff_threshold [OF h [of 51]] h s
    by (simp add: LeadScorer_init_def)
qed



subsection \<open>The verifier and the gates of the pipeline\<close>

lemma verify_returns:
  "\<exists>v. verify w url = Inr v \<and> error v = None \<and> store_url v = with_scheme url"
  by (simp add: verify_def verify_try_def Let_def split: option.split)

lemma score_keeps:
  "company (LeadScorer_score s l) = company l"
  "decision_maker (LeadScorer_score s l) = decision_maker l"
  "lead_id (LeadScorer_score s l) = lead_id l"
  by (simp_all add: LeadScorer_score_def Let_def split: prod.split)

lemma outreach_keeps:
  "company (fst (outreach_step w l)) = company l"
  "decision_maker (fst (outreach_step w l)) = decision_maker l"
  "qualification (fst (outreach_step w l)) = qualification l"
  "lead_id (fst (outreach_step w l)) = lead_id l"
  by (simp_all add: outreach_step_def split: option.split)

lemma process_store_lead:
  assumes "process_store w url seg v = (Inr lead, cs)"
  shows "\<exists>c5 hunter_data calls5 found calls7 found8 calls8.
           hunter_step w url (build_company url seg v (extract_store_info w (store_url v)))
             = (c5, hunter_data, calls5) \<and>
           decision_maker_cascade w v (extract_store_info w (store_url v)) hunter_data
               (tld_fallback url (linkedin_step w c5)) = (Inr found, calls7) \<and>
           email_step w (search_domain url (build_company url seg v
                           (extract_store_info w (store_url v)))) found = (found8, calls8) \<and>
           lead = fst (outreach_step w
                    (LeadScorer_score (LeadScorer_init QUALIFICATION_THRESHOLD None)
                       ((new_lead w (build_company url seg v (extract_store_info w (store_url v))))
                          \<lparr>company := tld_fallback url (linkedin_step w c5),
                            decision_maker := found8\<rparr>)))"
proof -
  let ?si = "extract_store_info w (store_url v)"
  let ?c4 = "build_company url seg v ?si"
  obtain c5 hunter_data calls5 where h: "hunter_step w url ?c4 = (c5, hunter_data, calls5)"
    by (cases "hunter_step w url ?c4")
  let ?c7 = "tld_fallback url (linkedin_step w c5)"
  obtain r7 calls7 where d: "decision_maker_cascade w v ?si hunter_data ?c7 = (r7, calls7)"
    by (cases "decision_maker_cascade w v ?si hunter_data ?c7")
  have "\<exists>found. r7 = Inr found"
    using assms h d unfolding process_store_def Let_def by (cases r7) simp_all
  then obtain found where r7: "r7 = Inr found"
    by blast
  obtain found8 calls8 where e: "email_step w (search_domain url ?c4) found = (found8, calls8)"
    by (cases "email_step w (search_domain url ?c4) found")
  let ?scored = "LeadScorer_score (LeadScorer_init QUALIFICATION_THRESHOLD None)
                   ((new_lead w ?c4)\<lparr>company := ?c7, decision_maker := found8\<rparr>)"
  have "lead = fst (outreach_step w ?scored)"
    using assms h d r7 e unfolding process_store_def Let_def
    by (cases "outreach_step w ?scored") simp
  with h d r7 e show ?thesis
    by blast
qed

lemma process_store_company:
  assumes "process_store w url seg v = (Inr lead, cs)"
  shows "company lead =
           tld_fallback url (linkedin_step w (fst (hunter_step w url
             (build_company url seg v (extract_store_info w (store_url v))))))"
proof -
  from process_store_lead [OF assms] obtain c5 hunter_data calls5 found8 where
    h: "hunter_step w url (build_company url seg v (extract_store_info w (store_url v)))
          = (c5, hunter_data, calls5)" and
    l: "lead = fst (outreach_step w
                    (LeadScorer_score (LeadScorer_init QUALIFICATION_THRESHOLD None)
                       ((new_lead w (build_company url seg v (extract_store_info w (store_url v))))
                          \<lparr>company := tld_fallback url (linkedin_step w c5),
                            decision_maker := found8\<rparr>)))"
    by blast
  show ?thesis
    unfolding l outreach_keeps score_keeps h by simp
qed

text \<open>
  Claim C9. \<open>verify\<close> returns its dictionary for every URL. When the two page
  fetches raise, though, the helper methods have already swallowed the
  exception: the handlers of \<open>verify\<close> are not reached, the platform is \<open>CUSTOM\<close>
  and the \<open>error\<close> field stays empty. Here no request of the world succeeds.
\<close>

theorem verify_hides_fetch_errors:
  "verify offline_world ''example.com'' =
     Inr \<lparr>is_shopify = False, v_platform = CUSTOM, store_url = ''https://example.com'',
          detection_method = None, error = None\<rparr>"
  by (simp add: verify_def verify_try_def check_products_json_def check_products_json_try_def
        check_page_source_def check_page_source_try_def offline_world_def with_scheme_def)

text \<open>
  Claim C7. When verification does not classify the URL as a Shopify store,
  \<open>process_url\<close> returns no lead, leaves the cache (dictionary and file) as it
  was, and has called no collaborator but the verifier.
\<close>

theorem non_shopify_rejected:
  assumes "\<not> (\<exists>v. verify w url = Inr v \<and> v_platform v = SHOPIFY)"
  shows "returned (process_url w cache url seg skip_validation force) = Inr None \<and>
         cache_after (process_url w cache url seg skip_validation force) = cache \<and>
         calls (process_url w cache url seg skip_validation force)
           = (if \<not> force \<and> is_processed cache url then [] else [CallVerify url])"
proof -
  obtain v where v: "verify w url = Inr v"
    using verify_returns [of w url] by blast
  with assms have "v_platform v \<noteq> SHOPIFY"
    by blast
  with v show ?thesis
    by (simp add: process_url_def)
qed

text \<open>With every request failing, \<open>example.com\<close> is classified \<open>CUSTOM\<close> and rejected.\<close>

theorem non_shopify_rejected_witness:
  "\<not> (\<exists>v. verify offline_world ''example.com'' = Inr v \<and> v_platform v = SHOPIFY) \<and>
   process_url offline_world empty_cache ''example.com'' None False False
     = \<lparr>returned = Inr None, cache_after = empty_cache, calls = [CallVerify ''example.com'']\<rparr>"
proof -
  have h: "\<not> (\<exists>v. verify offline_world ''example.com'' = Inr v \<and> v_platform v = SHOPIFY)"
    by (simp add: verify_def verify_try_def check_products_json_def check_products_json_try_def
        check_page_source_def check_page_source_try_def offline_world_def with_scheme_def)
  have np: "\<not> is_processed empty_cache ''example.com''"
    by (simp add: is_processed_def empty_cache_def)
  show ?thesis
    using non_shopify_rejected [OF h, of empty_cache None False False] h np
    by (cases "process_url offline_world empty_cache ''example.com'' None False False") simp
qed


subsection \<open>Country resolution\<close>

lemmas url_ops = with_scheme_def after_scheme_def urljoin_def urlparse_netloc_def


lemma shop_tld: "detect_country_from_tld ''https://shop.de'' = Some ''DE''"
  "detect_country_from_tld ''shop.de'' = Some ''DE''"
  by (simp_all add: detect_country_from_tld_def url_ops TLD_COUNTRY_MAP_def string_ops suffix_def)

lemma shop_store_info:
  "extract_store_info shop_world ''https://shop.de'' =
     \<lparr>info_name = Some ''Shop'', info_email = None, info_phone = None, info_address = None,
      info_description = None, info_social_links = [], info_real_domain = None,
      info_country = Some ''DE''\<rparr>"
  by (simp add: extract_store_info_def detect_country_def shop_tld shop_world_def offline_world_def
        shop_page_def with_scheme_def)

lemma shop_build:
  "build_company ''shop.de'' None shop_verification
     (extract_store_info shop_world (store_url shop_verification)) = shop_company_built"
  by (simp add: shop_verification_def shop_store_info build_company_def extract_domain_def
        or_else_def string_ops Let_def shop_company_built_def)

lemma shop_domain: "search_domain ''shop.de'' shop_company_built = ''shop.de''"
  by (simp add: search_domain_def or_else_def shop_company_built_def)

lemma shop_hunter:
  "hunter_step shop_world ''shop.de'' shop_company_built
     = (shop_company_built, Some \<lparr>company_name = None, hunter_country = None, hunter_industry = None,
                 emails = [], decision_makers = []\<rparr>, [CallDomainSearch ''shop.de''])"
  unfolding hunter_step_def Let_def shop_domain
  by (simp add: searchable_def domain_search_def hunter_fill_def
        shop_world_def offline_world_def Let_def shop_company_built_def)

lemma shop_linkedin_step: "linkedin_step shop_world shop_company_built = shop_company"
  by (simp add: linkedin_step_def enrich_company_def shop_world_def offline_world_def
        shop_linkedin_def or_num_def or_str_def linkedin_founded_def linkedin_country_def
        linkedin_domain_def Let_def shop_company_built_def shop_company_def)

lemma shop_tld_fallback: "tld_fallback ''shop.de'' shop_company = shop_company"
  by (simp add: tld_fallback_def shop_company_def)

lemma shop_si: "extract_store_info shop_world (store_url shop_verification) =
     \<lparr>info_name = Some ''Shop'', info_email = None, info_phone = None, info_address = None,
      info_description = None, info_social_links = [], info_real_domain = None,
      info_country = Some ''DE''\<rparr>"
  by (simp add: shop_verification_def shop_store_info)

lemma shop_cascade:
  "decision_maker_cascade shop_world shop_verification
     (extract_store_info shop_world (store_url shop_verification))
     (Some \<lparr>company_name = None, hunter_country = None, hunter_industry = None,
                 emails = [], decision_makers = []\<rparr>) shop_company
   = (Inr None, [CallFindDecisionMakers, CallFindDecisionMakersFromWebsite ''https://shop.de''])"
  unfolding shop_si
  by (simp add: decision_maker_cascade_def strategy_linkedin_def find_decision_makers_def
        strategy_hunter_def strategy_website_def strategy_store_email_def
        find_decision_makers_from_website_def TEAM_PAGE_PATHS_def
        shop_world_def offline_world_def shop_company_def shop_verification_def
        with_scheme_def Let_def)

lemma shop_score:
  "LeadScorer_score (LeadScorer_init QUALIFICATION_THRESHOLD None)
     ((new_lead shop_world shop_company_built)\<lparr>company := shop_company, decision_maker := None\<rparr>) = shop_lead"
  by (simp add: LeadScorer_score_def LeadScorer_init_def is_excluded_def EXCLUSION_LIST_def
        run_criteria_def award_def weight_def SCORING_WEIGHTS_def in_target_geography_def
        sells_prescription_eyewear_def dm_found_def dm_verified_def TARGET_COUNTRIES_def
        COMPANY_SIZE_MIN_def COMPANY_SIZE_MAX_def COMPANY_SIZE_SWEET_SPOT_MIN_def
        COMPANY_SIZE_SWEET_SPOT_MAX_def QUALIFICATION_THRESHOLD_def generate_fit_notes_def
        has_key_def new_lead_def shop_world_def offline_world_def shop_company_def
        shop_lead_def string_ops Let_def)

lemma shop_outreach: "outreach_step shop_world shop_lead = (shop_lead, [CallGenerateOutreach])"
  by (simp add: outreach_step_def shop_lead_def shop_company_def shop_world_def offline_world_def)

lemma shop_process_store:
  "process_store shop_world ''shop.de'' None shop_verification
   = (Inr shop_lead,
      [CallExtractStoreInfo ''https://shop.de'', CallDomainSearch ''shop.de'',
       CallEnrichCompany, CallFindDecisionMakers,
       CallFindDecisionMakersFromWebsite ''https://shop.de'', CallGenerateOutreach])"
  unfolding process_store_def Let_def shop_build shop_hunter
  by (simp add: shop_linkedin_step shop_tld_fallback shop_cascade email_step_def shop_score
        shop_outreach) (simp add: shop_verification_def)


lemma truthy_first_truthy: "truthy (first_truthy xs) \<longleftrightarrow> (\<exists>x \<in> set xs. truthy x)"
  by (induction xs) auto

lemma founded_keeps_country: "country (linkedin_founded d c) = country c"
  by (simp add: linkedin_founded_def split: option.split)

lemma domain_keeps_country: "country (linkedin_domain d c) = country c"
  by (simp add: linkedin_domain_def Let_def split: option.split)

lemma linkedin_country_set: "truthy (country c) \<Longrightarrow> linkedin_country d c = c"
  by (simp add: linkedin_country_def)


lemma linkedin_country_cong:
  "country c = country c' \<Longrightarrow> country (linkedin_country d c) = country (linkedin_country d c')"
  by (simp add: linkedin_country_def Let_def split: option.split main_address.split)

lemma enrich_company_shape:
  "(find_company w (name c) (website c) (primary_domain c) = None \<and>
      enrich_company w c = (c, None)) \<or>
   (\<exists>d e c'. find_company w (name c) (website c) (primary_domain c) = Some d \<and>
      enrich_company w c = (c', Some e) \<and> country c' = country c) \<or>
   (\<exists>d c'. find_company w (name c) (website c) (primary_domain c) = Some d \<and>
      enrich_company w c = (linkedin_domain d (linkedin_country d c'), None) \<and>
      country c' = country c)"
proof (cases "find_company w (name c) (website c) (primary_domain c)")
  case None
  then show ?thesis
    by (simp add: enrich_company_def)
next
  case (Some d)
  define c1 where "c1 = c\<lparr>linkedin_url := li_linkedInUrl d\<rparr>"
  define count where "count = or_num (or_num (li_numberOfEmployees d) (li_employeeCount d))
                             (li_employee_count d)"
  define counted where "counted =
                (case count of
                   None \<Rightarrow> Inr c1
                 | Some k \<Rightarrow>
                     if truthy_num count
                     then (case employee_count_of k of
                             Inl e \<Rightarrow> Inl e
                           | Inr n \<Rightarrow> Inr (c1\<lparr>employee_count := n\<rparr>))
                     else Inr c1)"
  have cc: "\<And>c2. counted = Inr c2 \<Longrightarrow> country c2 = country c"
    unfolding counted_def c1_def by (auto split: option.splits if_splits sum.splits)
  have e: "enrich_company w c =
             (case counted of
               Inl e \<Rightarrow> (c1, Some e)
             | Inr counted_company \<Rightarrow>
                 (linkedin_domain d (linkedin_country d (linkedin_founded d
                    (counted_company\<lparr>industry := or_str (li_Industry d) (li_industry d),
                       description := or_str (li_description d) (description counted_company)\<rparr>))),
                  None))"
    unfolding enrich_company_def Some counted_def count_def c1_def Let_def
    by (simp split: sum.split)
  show ?thesis
  proof (cases counted)
    case (Inl err)
    then have "enrich_company w c = (c1, Some err)" "country c1 = country c"
      unfolding e c1_def by simp_all
    with Some show ?thesis
      by blast
  next
    case (Inr c2)
    let ?c' = "linkedin_founded d
                 (c2\<lparr>industry := or_str (li_Industry d) (li_industry d),
                     description := or_str (li_description d) (description c2)\<rparr>)"
    have "enrich_company w c = (linkedin_domain d (linkedin_country d ?c'), None)"
      unfolding e Inr by simp
    moreover have "country ?c' = country c"
      using cc [OF Inr] by (simp add: founded_keeps_country)
    ultimately show ?thesis
      using Some by blast
  qed
qed

lemma linkedin_step_set: "truthy (country c) \<Longrightarrow> country (linkedin_step w c) = country c"
  using enrich_company_shape [of w c]
  by (auto simp: linkedin_step_def domain_keeps_country linkedin_country_set)



lemma hunter_fill_country:
  "country (hunter_fill h c) =
     (if truthy (hunter_country h) \<and> \<not> truthy (country c) then hunter_country h else country c)"
  by (auto simp: hunter_fill_def Let_def split: option.split)

lemma hunter_step_country:
  "country (fst (hunter_step w url c)) =
     (if \<not> truthy (country c) \<and> truthy (hunter_offer w url c)
      then hunter_offer w url c else country c)"
  by (simp add: hunter_step_def hunter_offer_def hunter_fill_country Let_def)

lemma tld_fallback_country:
  "country (tld_fallback url c) =
     (if \<not> truthy (country c) \<and> truthy (detect_country_from_tld url)
      then detect_country_from_tld url else country c)"
  by (simp add: tld_fallback_def Let_def)














text \<open>
  Claim C8. A country that is set (not empty) is kept by every later source:
  the Hunter.io step, LinkedIn enrichment (also when it raises) and the
  top-level-domain fallback each leave it as it is, for any company \<open>k\<close>. In a
  run that returns a lead, the country the scorer sees is therefore the first
  value that was set: the one of the store information if there is one, else
  the one after the Hunter.io step, else the one after LinkedIn enrichment.
\<close>

theorem country_never_overwritten:
  assumes "process_store w url seg v = (Inr lead, cs)"
    and "c4 = build_company url seg v (extract_store_info w (store_url v))"
    and "c5 = fst (hunter_step w url c4)"
    and "c6 = linkedin_step w c5"
  shows "(truthy (country k) \<longrightarrow>
            country (fst (hunter_step w url k)) = country k \<and>
            country (linkedin_step w k) = country k \<and>
            country (tld_fallback url k) = country k) \<and>
         (truthy (country c4) \<longrightarrow>
            country c5 = country c4 \<and> country c6 = country c4 \<and>
            country (company lead) = country c4) \<and>
         (truthy (country c5) \<longrightarrow>
            country c6 = country c5 \<and> country (company lead) = country c5) \<and>
         (truthy (country c6) \<longrightarrow> country (company lead) = country c6)"
proof -
  have final: "company lead = tld_fallback url c6"
    using process_store_company [OF assms(1)] assms(2-4) by simp
  have 5: "truthy (country c4) \<Longrightarrow> country c5 = country c4"
    unfolding assms(3) by (simp add: hunter_step_country)
  have 6: "truthy (country c5) \<Longrightarrow> country c6 = country c5"
    unfolding assms(4) by (rule linkedin_step_set)
  have 7: "truthy (country c6) \<Longrightarrow> country (company lead) = country c6"
    unfolding final by (simp add: tld_fallback_country)
  have stage: "truthy (country k) \<longrightarrow>
            country (fst (hunter_step w url k)) = country k \<and>
            country (linkedin_step w k) = country k \<and>
            country (tld_fallback url k) = country k"
    by (simp add: hunter_step_country linkedin_step_set tld_fallback_country)
  from 5 6 7 stage show ?thesis
    by simp
qed

text \<open>
  On \<open>shop.de\<close> the store information sets \<open>DE\<close>; LinkedIn has \<open>FR\<close> as registered
  address; the lead keeps \<open>DE\<close>.
\<close>

theorem country_never_overwritten_witness:
  "process_store shop_world ''shop.de'' None shop_verification
     = (Inr shop_lead,
        [CallExtractStoreInfo ''https://shop.de'', CallDomainSearch ''shop.de'',
         CallEnrichCompany, CallFindDecisionMakers,
         CallFindDecisionMakersFromWebsite ''https://shop.de'', CallGenerateOutreach]) \<and>
   country shop_company_built = Some ''DE'' \<and>
   li_mainAddress shop_linkedin = Some (AddressDict (Some ''FR'')) \<and>
   country (linkedin_step shop_world shop_company_built) = Some ''DE'' \<and>
   country (company shop_lead) = Some ''DE''"
proof -
  have c5: "shop_company_built = fst (hunter_step shop_world ''shop.de'' shop_company_built)"
    by (simp add: shop_hunter)
  have t: "truthy (country shop_company_built)"
    by (simp add: shop_company_built_def)
  show ?thesis
    using country_never_overwritten [OF shop_process_store shop_build [symmetric] c5 refl, of shop_company_built] t
    by (simp add: shop_process_store shop_company_built_def shop_linkedin_def)
qed





subsection \<open>The decision-maker cascade\<close>










text \<open>
  A Hunter.io contact without confidence value makes strategy 2 raise, and the
  exception leaves \<open>process_url\<close>.
\<close>

lemma hunter_confidence_missing_raises:
  assumes "fst (strategy_linkedin w c) = None"
    and "hunter_data = Some h"
    and "decision_makers h = contact # rest"
    and "contact_confidence contact = None"
  shows "decision_maker_cascade w v si hunter_data c = (Inl ''TypeError'', [CallFindDecisionMakers])"
proof -
  obtain calls1 where s1: "strategy_linkedin w c = (None, calls1)"
    using assms(1) by (cases "strategy_linkedin w c") simp
  have c1: "calls1 = [CallFindDecisionMakers]"
    using s1 by (auto simp: strategy_linkedin_def split: sum.splits list.splits)
  show ?thesis
    using assms(2-4)
    by (simp add: decision_maker_cascade_def s1 c1 strategy_hunter_def hunter_decision_maker_def)
qed

text \<open>
  Claim C10. When LinkedIn gives no candidate and the first Hunter.io contact has
  a confidence value, the cascade yields the decision maker built from that
  contact, with \<open>email_verified\<close> true exactly when the confidence is above 80,
  and the only call of the stage's run is the LinkedIn search before it: no
  address is looked up or verified. If that decision maker has an email and is
  verified, step 8 makes no call and returns it unchanged, as
  \<open>enrich_decision_maker\<close> itself would.
\<close>

theorem hunter_decision_maker_verified:
  assumes "fst (strategy_linkedin w c) = None"
    and "hunter_data = Some h"
    and "decision_makers h = contact # rest"
    and "contact_confidence contact = Some conf"
    and "dm = \<lparr>dm_name = contact_name contact, title = contact_title contact,
                dm_linkedin_url = None, email = contact_email contact,
                email_verified = (conf > 80), phone = None, location = None\<rparr>"
  shows "decision_maker_cascade w v si hunter_data c
           = (Inr (Some dm), [CallFindDecisionMakers]) \<and>
         email_verified dm = (conf > 80) \<and>
         (truthy (email dm) \<and> email_verified dm \<longrightarrow>
            email_step w domain (Some dm) = (Some dm, []) \<and>
            enrich_decision_maker w dm domain = (dm, []))"
proof -
  obtain calls1 where s1: "strategy_linkedin w c = (None, calls1)"
    using assms(1) by (cases "strategy_linkedin w c") simp
  have c1: "calls1 = [CallFindDecisionMakers]"
    using s1 by (auto simp: strategy_linkedin_def split: sum.splits list.splits)
  have s2: "strategy_hunter hunter_data None = Inr (Some dm)"
    using assms(2-5) by (simp add: strategy_hunter_def hunter_decision_maker_def)
  have "decision_maker_cascade w v si hunter_data c = (Inr (Some dm), [CallFindDecisionMakers])"
    by (simp add: decision_maker_cascade_def s1 s2 c1 strategy_website_def
          strategy_store_email_def)
  moreover have "truthy (email dm) \<and> email_verified dm \<longrightarrow>
                 email_step w domain (Some dm) = (Some dm, []) \<and>
                 enrich_decision_maker w dm domain = (dm, [])"
    by (simp add: email_step_def enrich_decision_maker_def)
  moreover have "email_verified dm = (conf > 80)"
    unfolding assms(5) by simp
  ultimately show ?thesis
    by simp
qed

text \<open>A contact with confidence 95 and an address.\<close>

theorem hunter_decision_maker_verified_witness:
  "fst (strategy_linkedin offline_world shop_company_built) = None \<and>
   decision_makers ada_hunter_result = [ada_contact] \<and>
   contact_confidence ada_contact = Some 95 \<and>
   decision_maker_cascade offline_world shop_verification no_store_info
       (Some ada_hunter_result) shop_company_built
     = (Inr (Some ada_from_hunter), [CallFindDecisionMakers]) \<and>
   email_verified ada_from_hunter \<and>
   email_step offline_world ''shop.de'' (Some ada_from_hunter) = (Some ada_from_hunter, [])"
proof -
  have 1: "fst (strategy_linkedin offline_world shop_company_built) = None"
    by (simp add: strategy_linkedin_def find_decision_makers_def shop_company_built_def)
  have 3: "decision_makers ada_hunter_result = ada_contact # []"
    by (simp add: ada_hunter_result_def)
  have 4: "contact_confidence ada_contact = Some 95"
    by (simp add: ada_contact_def)
  have 5: "ada_from_hunter =
             \<lparr>dm_name = contact_name ada_contact, title = contact_title ada_contact,
              dm_linkedin_url = None, email = contact_email ada_contact,
              email_verified = (95 > (80::int)), phone = None, location = None\<rparr>"
    by (simp add: ada_from_hunter_def ada_contact_def)
  have t: "truthy (email ada_from_hunter)"
    by (simp add: ada_from_hunter_def)
  show ?thesis
    using hunter_decision_maker_verified [OF 1 refl 3 4 5, of shop_verification no_store_info "''shop.de''"] 1 3 4 t
    by simp
qed

end
